theory Spec2Isabelle
  imports Complex_Main
begin

section \<open>The main pass of the phase distribution graph simulation\<close>

text \<open>
  A shallow embedding of \<^verbatim>\<open>execute_graph\<close> of
  \<^verbatim>\<open>src/python/MRzeroCore/simulation/main_pass.py\<close>.

  Conventions of the embedding:
  \<^item> torch tensors hold ideal numbers: a float is a \<^typ>\<open>real\<close>, a complex float a
    \<^typ>\<open>complex\<close>; rounding, infinities and NaN are not modelled;
  \<^item> a tensor with a voxel axis is a function of the voxel index, read below
    \<open>voxel_count\<close>; a scalar that torch broadcasts along that axis is a constant function;
  \<^item> the tensors of a repetition that share the event axis (gradient moments, event
    times, ADC usage, ADC phase) are one list of event records;
  \<^item> the distribution objects live in a heap, addresses are natural numbers, and the
    graph and the ancestor lists hold addresses, since the pass mutates \<open>mag\<close> and
    \<open>kt_vec\<close> of objects that are shared between the graph and the ancestor lists;
  \<^item> every \<^verbatim>\<open>raise\<close>, failed \<^verbatim>\<open>assert\<close> and out-of-range access is a value
    \<open>Inl e\<close>; progress printing is left out.
\<close>

subsection \<open>Vectors\<close>

type_synonym addr = nat
type_synonym 'a vox = "nat \<Rightarrow> 'a"
type_synonym vec3 = "real \<times> real \<times> real"
type_synonym vec4 = "real \<times> real \<times> real \<times> real"
type_synonym mat3 = "vec3 \<times> vec3 \<times> vec3"

definition zero4 :: vec4 where
  "zero4 = (0, 0, 0, 0)"

fun add4 :: "vec4 \<Rightarrow> vec4 \<Rightarrow> vec4" where
  "add4 (a, b, c, d) (a', b', c', d') = (a + a', b + b', c + c', d + d')"

fun scale4 :: "real \<Rightarrow> vec4 \<Rightarrow> vec4" where
  "scale4 s (a, b, c, d) = (s * a, s * b, s * c, s * d)"

fun neg4 :: "vec4 \<Rightarrow> vec4" where
  "neg4 (a, b, c, d) = (- a, - b, - c, - d)"

fun first3 :: "vec4 \<Rightarrow> vec3" where
  "first3 (a, b, c, d) = (a, b, c)"

fun tau :: "vec4 \<Rightarrow> real" where
  "tau (a, b, c, d) = d"

fun add3 :: "vec3 \<Rightarrow> vec3 \<Rightarrow> vec3" where
  "add3 (a, b, c) (a', b', c') = (a + a', b + b', c + c')"

fun sub3 :: "vec3 \<Rightarrow> vec3 \<Rightarrow> vec3" where
  "sub3 (a, b, c) (a', b', c') = (a - a', b - b', c - c')"

fun mul3 :: "vec3 \<Rightarrow> vec3 \<Rightarrow> vec3" where
  "mul3 (a, b, c) (a', b', c') = (a * a', b * b', c * c')"

fun dot3 :: "vec3 \<Rightarrow> vec3 \<Rightarrow> real" where
  "dot3 (a, b, c) (a', b', c') = a * a' + b * b' + c * c'"

fun cat4 :: "vec3 \<Rightarrow> real \<Rightarrow> vec4" where
  "cat4 (a, b, c) d = (a, b, c, d)"

text \<open>\<^verbatim>\<open>torch.linalg.vector_norm\<close> of a 3-vector.\<close>

definition vector_norm :: "vec3 \<Rightarrow> real" where
  "vector_norm k = sqrt (dot3 k k)"

text \<open>\<^verbatim>\<open>torch.einsum("vi, eij -> evj", voxel_pos, rot)\<close> for one voxel and one event.\<close>

fun vec_mat :: "vec3 \<Rightarrow> mat3 \<Rightarrow> vec3" where
  "vec_mat (x, y, z) ((a0, a1, a2), (b0, b1, b2), (c0, c1, c2)) =
     (x * a0 + y * b0 + z * c0, x * a1 + y * b1 + z * c1, x * a2 + y * b2 + z * c2)"

text \<open>\<^verbatim>\<open>torch.cumsum(xs, 0)\<close> on reals, 4-vectors and per-voxel rows.\<close>

fun cumsum_from :: "real \<Rightarrow> real list \<Rightarrow> real list" where
  "cumsum_from acc [] = []"
| "cumsum_from acc (x # xs) = (acc + x) # cumsum_from (acc + x) xs"

fun cumsum4_from :: "vec4 \<Rightarrow> vec4 list \<Rightarrow> vec4 list" where
  "cumsum4_from acc [] = []"
| "cumsum4_from acc (x # xs) = add4 acc x # cumsum4_from (add4 acc x) xs"

fun cumsum_vox_from :: "real vox \<Rightarrow> real vox list \<Rightarrow> real vox list" where
  "cumsum_vox_from acc [] = []"
| "cumsum_vox_from acc (x # xs) =
     (\<lambda>v. acc v + x v) # cumsum_vox_from (\<lambda>v. acc v + x v) xs"

text \<open>Boolean mask indexing \<^verbatim>\<open>xs[adc]\<close> along the event axis.\<close>

fun masked :: "bool list \<Rightarrow> 'a list \<Rightarrow> 'a list" where
  "masked (m # ms) (x # xs) = (if m then x # masked ms xs else masked ms xs)"
| "masked _ _ = []"

subsection \<open>Data model\<close>

datatype error =
    IndexError
  | AssertionError string
  | ValueError string
  | TypeError
  | AttributeError
  | RuntimeError

text \<open>
  A distribution object of the graph. \<open>mag = None\<close> is Python's \<^verbatim>\<open>state.mag = None\<close>:
  the state was not simulated, or its magnetisation was released.
\<close>

record dist =
  dist_type :: string
  latent_signal :: real
  emitted_signal :: real
  ancestors :: "(string \<times> addr) list"
  mag :: "complex vox option"
  kt_vec :: vec4

type_synonym heap = "addr \<Rightarrow> dist"
type_synonym graph = "addr list list"

record event =
  gradm :: vec3
  event_time :: real
  adc_usage :: int
  adc_phase :: real

text \<open>A repetition of the sequence; \<open>shim_array\<close> has one (amplitude, phase) row per channel.\<close>

record repetition =
  pulse_angle :: real
  pulse_phase :: real
  shim_array :: "(real \<times> real) list"
  events :: "event list"

record sequence =
  normalized_grads :: bool
  reps :: "repetition list"

text \<open>
  \<^verbatim>\<open>SimData\<close>, of which only the use is in the source: the fields the pass reads.
  \<open>B1\<close> and \<open>coil_sens\<close> are coils x voxels. \<open>dephasing_func\<close> and the two motion
  functions are applied per event. \<open>voxel_count\<close> is \<^verbatim>\<open>data.PD.numel()\<close>.
\<close>

record simdata =
  PD :: "real vox"
  T1 :: "real vox"
  T2 :: "real vox"
  T2dash :: "real vox"
  D :: "real vox"
  B0 :: "real vox"
  B1 :: "complex vox list"
  coil_sens :: "complex vox list"
  size_fov :: vec3
  voxel_pos :: "vec3 vox"
  nyquist :: vec3
  dephasing_func :: "vec3 \<Rightarrow> vec3 \<Rightarrow> real"
  voxel_motion :: "(real \<Rightarrow> vec3 vox) option"
  phantom_motion :: "(real \<Rightarrow> mat3 \<times> vec3) option"
  voxel_count :: nat

text \<open>The keyword arguments of \<^verbatim>\<open>execute_graph\<close>.\<close>

record config =
  min_emitted_signal :: real
  min_latent_signal :: real
  return_mag_adc :: bool
  clear_state_mag :: bool
  intitial_mag :: "complex vox option"

subsection \<open>RF mixing coefficients (lines 126 to 153)\<close>

definition shim_weight :: "real \<times> real \<Rightarrow> complex" where
  "shim_weight s = of_real (fst s) * exp (- \<i> * of_real (snd s))"

text \<open>
  The 1Tx / pTx branch: \<open>B1\<close> summed over the coil axis, or the failed assertion. The
  \<^verbatim>\<open>assert\<close> of line 134 has no message, so the error carries the empty string.
\<close>

definition combined_B1 :: "simdata \<Rightarrow> repetition \<Rightarrow> error + complex vox" where
  "combined_B1 data rep =
     (if length (shim_array rep) = 1 then
        Inr (\<lambda>v. sum_list (map (\<lambda>c. c v) (B1 data)))
      else if length (shim_array rep) \<noteq> length (B1 data) then
        Inl (AssertionError [])
      else
        Inr (\<lambda>v. sum_list (map (\<lambda>(c, s). c v * shim_weight s)
                              (zip (B1 data) (shim_array rep)))))"

record rf =
  z_to_z :: "real vox"
  p_to_p :: "real vox"
  z_to_p :: "complex vox"
  p_to_z :: "complex vox"
  m_to_z :: "complex vox"
  m_to_p :: "complex vox"

definition eff_angle :: "repetition \<Rightarrow> complex vox \<Rightarrow> real vox" where
  "eff_angle rep b1 = (\<lambda>v. pulse_angle rep * cmod (b1 v))"

definition eff_phase :: "repetition \<Rightarrow> complex vox \<Rightarrow> real vox" where
  "eff_phase rep b1 = (\<lambda>v. pulse_phase rep + Arg (b1 v))"

definition rf_coeffs :: "real vox \<Rightarrow> real vox \<Rightarrow> rf" where
  "rf_coeffs angle phase =
     (let zz = (\<lambda>v. cos (angle v));
          pp = (\<lambda>v. (cos (angle v / 2))\<^sup>2);
          zp = (\<lambda>v. - (0.70710678118 * \<i>) * of_real (sin (angle v))
                       * exp (\<i> * of_real (phase v)));
          pz = (\<lambda>v. - cnj (zp v));
          mz = (\<lambda>v. - zp v);
          mp = (\<lambda>v. of_real (1 - pp v) * exp (2 * \<i> * of_real (phase v)))
      in \<lparr>z_to_z = zz, p_to_p = pp, z_to_p = zp, p_to_z = pz, m_to_z = mz, m_to_p = mp\<rparr>)"

definition pulse_coeffs :: "simdata \<Rightarrow> repetition \<Rightarrow> error + rf" where
  "pulse_coeffs data rep =
     (case combined_B1 data rep of
        Inl e \<Rightarrow> Inl e
      | Inr b1 \<Rightarrow> Inr (rf_coeffs (eff_angle rep b1) (eff_phase rep b1)))"

subsection \<open>The state evolver (lines 155 to 169 and 226 to 264)\<close>

text \<open>
  \<open>calc_mag\<close>: the label is tested first, then the parent's \<open>mag\<close> is read. On a parent
  without magnetisation Python fails in the multiplication or in \<^verbatim>\<open>.conj()\<close>.
\<close>

definition calc_mag :: "rf \<Rightarrow> heap \<Rightarrow> string \<times> addr \<Rightarrow> error + complex vox" where
  "calc_mag c h ancestor =
     (if fst ancestor = ''zz'' then
        (case mag (h (snd ancestor)) of None \<Rightarrow> Inl TypeError
         | Some m \<Rightarrow> Inr (\<lambda>v. m v * of_real (z_to_z c v)))
      else if fst ancestor = ''++'' then
        (case mag (h (snd ancestor)) of None \<Rightarrow> Inl TypeError
         | Some m \<Rightarrow> Inr (\<lambda>v. m v * of_real (p_to_p c v)))
      else if fst ancestor = ''z+'' then
        (case mag (h (snd ancestor)) of None \<Rightarrow> Inl TypeError
         | Some m \<Rightarrow> Inr (\<lambda>v. m v * z_to_p c v))
      else if fst ancestor = ''+z'' then
        (case mag (h (snd ancestor)) of None \<Rightarrow> Inl TypeError
         | Some m \<Rightarrow> Inr (\<lambda>v. m v * p_to_z c v))
      else if fst ancestor = ''-z'' then
        (case mag (h (snd ancestor)) of None \<Rightarrow> Inl AttributeError
         | Some m \<Rightarrow> Inr (\<lambda>v. cnj (m v) * m_to_z c v))
      else if fst ancestor = ''-+'' then
        (case mag (h (snd ancestor)) of None \<Rightarrow> Inl AttributeError
         | Some m \<Rightarrow> Inr (\<lambda>v. cnj (m v) * m_to_p c v))
      else Inl (ValueError (''Unknown transform '' @ fst ancestor)))"

text \<open>The list comprehension \<^verbatim>\<open>[calc_mag(ancestor) for ancestor in ancestors]\<close>.\<close>

fun calc_mags :: "rf \<Rightarrow> heap \<Rightarrow> (string \<times> addr) list \<Rightarrow> error + complex vox list" where
  "calc_mags c h [] = Inr []"
| "calc_mags c h (a # as) =
     (case calc_mag c h a of
        Inl e \<Rightarrow> Inl e
      | Inr m \<Rightarrow> (case calc_mags c h as of Inl e \<Rightarrow> Inl e | Inr ms \<Rightarrow> Inr (m # ms)))"

text \<open>Python's \<^verbatim>\<open>sum\<close>: a left fold from 0.\<close>

definition sum_vox :: "complex vox list \<Rightarrow> complex vox" where
  "sum_vox ms = foldl (\<lambda>acc m. (\<lambda>v. acc v + m v)) (\<lambda>v. 0) ms"

text \<open>The ancestors that were simulated: \<^verbatim>\<open>filter(lambda edge: edge[1].mag is not None, ...)\<close>.\<close>

definition simulated :: "heap \<Rightarrow> (string \<times> addr) list \<Rightarrow> (string \<times> addr) list" where
  "simulated h ancs = filter (\<lambda>edge. mag (h (snd edge)) \<noteq> None) ancs"

text \<open>Lines 259 to 264. It is reached with a non-empty list unless the type is z0.\<close>

definition new_kt_vec :: "heap \<Rightarrow> string \<Rightarrow> (string \<times> addr) list \<Rightarrow> error + vec4" where
  "new_kt_vec h ty ancs =
     (if ty = ''z0'' then Inr zero4
      else (case ancs of
              [] \<Rightarrow> Inl IndexError
            | a # _ \<Rightarrow>
                if fst a \<in> set [''-+'', ''-z''] then Inr (scale4 (- 1) (kt_vec (h (snd a))))
                else Inr (kt_vec (h (snd a)))))"

text \<open>
  Lines 226 to 264 for the distribution at address \<open>d\<close>: \<open>Inr None\<close> is \<^verbatim>\<open>continue\<close>,
  \<open>Inr (Some h')\<close> the heap after \<open>mag\<close> and \<open>kt_vec\<close> of \<open>d\<close> were assigned.
\<close>

definition evolve :: "config \<Rightarrow> rf \<Rightarrow> heap \<Rightarrow> addr \<Rightarrow> error + heap option" where
  "evolve cfg c h d =
     (let ancs = simulated h (ancestors (h d)) in
      if dist_type (h d) \<noteq> ''z0'' \<and> latent_signal (h d) < min_latent_signal cfg then Inr None
      else if dist_type (h d) \<noteq> ''z0'' \<and> length ancs = 0 then Inr None
      else
        (case calc_mags c h ancs of
           Inl e \<Rightarrow> Inl e
         | Inr ms \<Rightarrow>
             (let h1 = h(d := (h d)\<lparr>mag := Some (sum_vox ms)\<rparr>) in
              case new_kt_vec h1 (dist_type (h1 d)) ancs of
                Inl e \<Rightarrow> Inl e
              | Inr kt \<Rightarrow> Inr (Some (h1(d := (h1 d)\<lparr>kt_vec := kt\<rparr>))))))"

subsection \<open>Per-repetition quantities (lines 90 to 98 and 171 to 215)\<close>

definition grad_scale :: "sequence \<Rightarrow> simdata \<Rightarrow> vec3" where
  "grad_scale seq data =
     (if normalized_grads seq then
        (case size_fov data of (x, y, z) \<Rightarrow> (1 / x, 1 / y, 1 / z))
      else (1, 1, 1))"

definition rigid_motion :: "vec3 vox \<Rightarrow> (real \<Rightarrow> mat3 \<times> vec3) \<Rightarrow> real \<Rightarrow> vec3 vox" where
  "rigid_motion vp motion_func =
     (\<lambda>time v. add3 (vec_mat (vp v) (fst (motion_func time))) (snd (motion_func time)))"

definition voxel_pos_func :: "simdata \<Rightarrow> (real \<Rightarrow> vec3 vox) option" where
  "voxel_pos_func data =
     (case voxel_motion data of
        Some f \<Rightarrow> Some f
      | None \<Rightarrow>
          (case phantom_motion data of
             Some motion_func \<Rightarrow> Some (rigid_motion (voxel_pos data) motion_func)
           | None \<Rightarrow> None))"

definition adc_mask :: "repetition \<Rightarrow> bool list" where
  "adc_mask rep = map (\<lambda>e. adc_usage e > 0) (events rep)"

definition adc_count :: "repetition \<Rightarrow> nat" where
  "adc_count rep = length (filter (\<lambda>b. b) (adc_mask rep))"

definition trajectory_of :: "vec3 \<Rightarrow> repetition \<Rightarrow> vec4 list" where
  "trajectory_of gs rep =
     cumsum4_from zero4 (map (\<lambda>e. cat4 (mul3 (gradm e) gs) (event_time e)) (events rep))"

definition total_time_of :: "repetition \<Rightarrow> real" where
  "total_time_of rep = sum_list (map event_time (events rep))"

text \<open>The event midpoints \<^verbatim>\<open>(time[:-1] + time[1:]) / 2\<close>.\<close>

definition midpoints :: "real \<Rightarrow> vec4 list \<Rightarrow> real list" where
  "midpoints t0 traj =
     (let time = map (\<lambda>x. t0 + x) (0 # map tau traj)
      in map2 (\<lambda>a b. (a + b) / 2) (butlast time) (tl time))"

text \<open>
  The motion phase. \<open>None\<close> is the Python integer 0 that \<open>motion_phase\<close> keeps when there
  is no position function; \<open>Some\<close> is the tensor events x voxels.
\<close>

definition motion_phase_of ::
  "simdata \<Rightarrow> vec3 \<Rightarrow> real \<Rightarrow> repetition \<Rightarrow> vec4 list \<Rightarrow> real vox list option" where
  "motion_phase_of data gs t0 rep traj =
     (case voxel_pos_func data of
        None \<Rightarrow> None
      | Some f \<Rightarrow>
          Some (cumsum_vox_from (\<lambda>v. 0)
                 (map2 (\<lambda>tm e. (\<lambda>v. dot3 (sub3 (f tm v) (voxel_pos data v)) (mul3 (gradm e) gs)))
                    (midpoints t0 traj) (events rep))))"

record repctx =
  coeffs :: rf
  adc :: "bool list"
  trajectory :: "vec4 list"
  dt :: "real list"
  total_time :: real
  r1 :: "real vox"
  r2 :: "real vox"
  adc_rot :: "complex list"
  motion_phase :: "real vox list option"

definition rep_ctx :: "sequence \<Rightarrow> simdata \<Rightarrow> real \<Rightarrow> repetition \<Rightarrow> rf \<Rightarrow> repctx" where
  "rep_ctx seq data t0 rep c =
     (let traj = trajectory_of (grad_scale seq data) rep;
          tt = total_time_of rep
      in \<lparr>coeffs = c,
          adc = adc_mask rep,
          trajectory = traj,
          dt = map event_time (events rep),
          total_time = tt,
          r1 = (\<lambda>v. exp (- tt / \<bar>T1 data v\<bar>)),
          r2 = (\<lambda>v. exp (- tt / \<bar>T2 data v\<bar>)),
          adc_rot = map (\<lambda>e. exp (\<i> * of_real (adc_phase e))) (events rep),
          motion_phase = motion_phase_of data (grad_scale seq data) t0 rep traj\<rparr>)"

subsection \<open>Diffusion (lines 266 to 316)\<close>

definition dist_traj_of :: "vec4 \<Rightarrow> vec4 list \<Rightarrow> vec4 list" where
  "dist_traj_of kt traj = map (add4 kt) traj"

fun k_sum :: "vec3 \<Rightarrow> vec3 \<Rightarrow> real" where
  "k_sum (a, b, c) (a', b', c') =
     (a\<^sup>2 + a * a' + a'\<^sup>2) + (b\<^sup>2 + b * b' + b'\<^sup>2) + (c\<^sup>2 + c * c' + c'\<^sup>2)"

text \<open>The b factors of the events; \<open>k1\<close> is \<open>k2\<close> shifted by one event. Not used on zero events.\<close>

definition b_factors :: "vec4 \<Rightarrow> real list \<Rightarrow> vec4 list \<Rightarrow> real list" where
  "b_factors kt dts dtraj =
     (let k2 = map first3 dtraj;
          k1 = first3 kt # butlast k2
      in map2 (\<lambda>t (p, q). 1 / 3 * (2 * pi)\<^sup>2 * t * k_sum p q) dts (zip k1 k2))"

definition diffusion_of :: "simdata \<Rightarrow> real list \<Rightarrow> real vox list" where
  "diffusion_of data b = map (\<lambda>cb. (\<lambda>v. exp (- 0.000000001 * D data v * cb))) (cumsum_from 0 b)"

subsection \<open>The signal of a transverse state (lines 345 to 387)\<close>

text \<open>One row of \<open>transverse_mag\<close>: an ADC event with its trajectory, diffusion and motion phase.\<close>

definition transverse_mag_row ::
  "simdata \<Rightarrow> complex vox \<Rightarrow> vec4 \<times> vec4 \<times> real vox \<times> real vox option \<Rightarrow> complex vox" where
  "transverse_mag_row data m row =
     (case row of (dtj, tj, dif, mo) \<Rightarrow>
        (\<lambda>v. 1.41421356237 * m v
              * exp (2 * \<i> * of_real pi
                     * of_real (tau dtj * B0 data v + dot3 (first3 dtj) (voxel_pos data v)
                                + (case mo of None \<Rightarrow> 0 | Some p \<Rightarrow> p v)))
              * of_real (exp (- tau tj / \<bar>T2 data v\<bar>))
              * of_real (exp (- \<bar>tau dtj\<bar> / \<bar>T2dash data v\<bar>))
              * of_real (dif v)
              * of_real (dephasing_func data (first3 dtj) (nyquist data))))"

text \<open>\<open>adc_motion_phase\<close>, one entry per event: the rows of the tensor, or the integer 0.\<close>

definition motion_rows :: "repctx \<Rightarrow> real vox option list" where
  "motion_rows ctx =
     (case motion_phase ctx of
        None \<Rightarrow> map (\<lambda>_. None) (trajectory ctx)
      | Some mp \<Rightarrow> map Some mp)"

definition transverse_mag ::
  "simdata \<Rightarrow> repctx \<Rightarrow> complex vox \<Rightarrow> vec4 list \<Rightarrow> real vox list \<Rightarrow> complex vox list" where
  "transverse_mag data ctx m dtraj diffusion =
     map (transverse_mag_row data m)
       (masked (adc ctx) (zip dtraj (zip (trajectory ctx) (zip diffusion (motion_rows ctx)))))"

text \<open>\<^verbatim>\<open>transverse_mag @ coil_sensitivity\<close>, the sensitivity weighted by \<open>|PD|\<close>.\<close>

definition coil_project :: "simdata \<Rightarrow> complex vox \<Rightarrow> complex list" where
  "coil_project data tm =
     map (\<lambda>cs. \<Sum>v<voxel_count data. tm v * (cs v * of_real \<bar>PD data v\<bar>)) (coil_sens data)"

definition add_sig :: "complex list list \<Rightarrow> complex list list \<Rightarrow> complex list list" where
  "add_sig rep_sig dist_signal = map2 (\<lambda>r s. map2 (\<lambda>x y. x + y) r s) rep_sig dist_signal"

definition measure_dist ::
  "config \<Rightarrow> simdata \<Rightarrow> repctx \<Rightarrow> heap \<Rightarrow> addr \<Rightarrow> vec4 list \<Rightarrow> real vox list \<Rightarrow>
   complex list list \<times> complex vox list list \<Rightarrow>
   error + complex list list \<times> complex vox list list" where
  "measure_dist cfg data ctx h d dtraj diffusion acc =
     (case acc of (rep_sig, mag_adc_rep) \<Rightarrow>
        (case mag (h d) of
           None \<Rightarrow> Inl AttributeError
         | Some m \<Rightarrow>
             (let tms = transverse_mag data ctx m dtraj diffusion;
                  mag_adc_rep' =
                    (if return_mag_adc cfg then
                       mag_adc_rep @
                         [map2 (\<lambda>rot tm. (\<lambda>v. rot * tm v * of_real \<bar>PD data v\<bar>))
                            (masked (adc ctx) (adc_rot ctx)) tms]
                     else mag_adc_rep)
              in Inr (add_sig rep_sig (map (coil_project data) tms), mag_adc_rep'))))"

subsection \<open>Carry-over into the next repetition (lines 393 to 404)\<close>

definition carry_over ::
  "simdata \<Rightarrow> repctx \<Rightarrow> heap \<Rightarrow> addr \<Rightarrow> vec4 list \<Rightarrow> real vox list \<Rightarrow> error + heap" where
  "carry_over data ctx h d dtraj diffusion =
     (case mag (h d) of
        None \<Rightarrow> Inl TypeError
      | Some m \<Rightarrow>
          (let (m1, kt1) =
                 (if dist_type (h d) = ''+'' then
                    (let m' = (\<lambda>v. m v * of_real (r2 ctx v) * of_real (last diffusion v));
                         m'' = (case motion_phase ctx of
                                  None \<Rightarrow> m'
                                | Some mp \<Rightarrow>
                                    (\<lambda>v. m' v * exp (2 * \<i> * of_real pi * of_real (last mp v))))
                     in (m'', last dtraj))
                  else
                    (let k = vector_norm (first3 (kt_vec (h d)));
                         diffusion' = (\<lambda>v. exp (- 0.000000001 * D data v * total_time ctx * k\<^sup>2))
                     in ((\<lambda>v. m v * of_real (r1 ctx v) * of_real (diffusion' v)), kt_vec (h d))));
               m2 = (if dist_type (h d) = ''z0'' then (\<lambda>v. m1 v + 1 - of_real (r1 ctx v)) else m1)
           in Inr (h(d := (h d)\<lparr>mag := Some m2, kt_vec := kt1\<rparr>))))"

subsection \<open>The loop over the distributions of a repetition (lines 225 to 404)\<close>

type_synonym dstate = "heap \<times> complex list list \<times> complex vox list list"

definition process_dist ::
  "config \<Rightarrow> simdata \<Rightarrow> repctx \<Rightarrow> dstate \<Rightarrow> addr \<Rightarrow> error + dstate" where
  "process_dist cfg data ctx st d =
     (case st of (h, rep_sig, mag_adc_rep) \<Rightarrow>
        (case evolve cfg (coeffs ctx) h d of
           Inl e \<Rightarrow> Inl e
         | Inr None \<Rightarrow> Inr (h, rep_sig, mag_adc_rep)
         | Inr (Some h1) \<Rightarrow>
             if trajectory ctx = [] then Inl IndexError
             else
               (let dtraj = dist_traj_of (kt_vec (h1 d)) (trajectory ctx);
                    diffusion = diffusion_of data (b_factors (kt_vec (h1 d)) (dt ctx) dtraj)
                in case (if dist_type (h1 d) = ''+''
                            \<and> emitted_signal (h1 d) \<ge> min_emitted_signal cfg
                         then measure_dist cfg data ctx h1 d dtraj diffusion (rep_sig, mag_adc_rep)
                         else Inr (rep_sig, mag_adc_rep)) of
                     Inl e \<Rightarrow> Inl e
                   | Inr (rep_sig', mag_adc_rep') \<Rightarrow>
                       (case carry_over data ctx h1 d dtraj diffusion of
                          Inl e \<Rightarrow> Inl e
                        | Inr h2 \<Rightarrow> Inr (h2, rep_sig', mag_adc_rep')))))"

fun process_dists ::
  "config \<Rightarrow> simdata \<Rightarrow> repctx \<Rightarrow> dstate \<Rightarrow> addr list \<Rightarrow> error + dstate" where
  "process_dists cfg data ctx st [] = Inr st"
| "process_dists cfg data ctx st (d # ds) =
     (case process_dist cfg data ctx st d of
        Inl e \<Rightarrow> Inl e
      | Inr st' \<Rightarrow> process_dists cfg data ctx st' ds)"

subsection \<open>The loop over the repetitions (lines 122 to 443)\<close>

text \<open>\<^verbatim>\<open>for ancestor in dist.ancestors: ancestor[1].mag = None\<close>, for every \<open>dist\<close>.\<close>

fun clear_ancestors :: "heap \<Rightarrow> (string \<times> addr) list \<Rightarrow> heap" where
  "clear_ancestors h [] = h"
| "clear_ancestors h (a # as) = clear_ancestors (h(snd a := (h (snd a))\<lparr>mag := None\<rparr>)) as"

fun clear_mags :: "heap \<Rightarrow> addr list \<Rightarrow> heap" where
  "clear_mags h [] = h"
| "clear_mags h (d # ds) = clear_mags (clear_ancestors h (ancestors (h d))) ds"

text \<open>The state of the outer loop: heap, \<open>t0\<close>, \<open>signal\<close> and \<open>mag_adc\<close>.\<close>

type_synonym rstate = "heap \<times> real \<times> complex list list list \<times> complex vox list list list"

definition run_rep ::
  "config \<Rightarrow> sequence \<Rightarrow> simdata \<Rightarrow> rstate \<Rightarrow> addr list \<times> repetition \<Rightarrow> error + rstate" where
  "run_rep cfg seq data st pair =
     (case st of (h, t0, signal, mag_adc) \<Rightarrow>
      (case pair of (dists, rep) \<Rightarrow>
        (case pulse_coeffs data rep of
           Inl e \<Rightarrow> Inl e
         | Inr c \<Rightarrow>
             (let ctx = rep_ctx seq data t0 rep c;
                  rep_sig0 = replicate (adc_count rep) (replicate (length (coil_sens data)) 0)
              in case process_dists cfg data ctx (h, rep_sig0, []) dists of
                   Inl e \<Rightarrow> Inl e
                 | Inr (h', rep_sig, mag_adc_rep) \<Rightarrow>
                     Inr (if clear_state_mag cfg then clear_mags h' dists else h',
                          t0 + total_time ctx,
                          signal @ [map2 (\<lambda>row rot. map (\<lambda>x. x * rot) row) rep_sig
                                      (masked (adc ctx) (adc_rot ctx))],
                          mag_adc @ [mag_adc_rep])))))"

fun run_reps ::
  "config \<Rightarrow> sequence \<Rightarrow> simdata \<Rightarrow> rstate \<Rightarrow> (addr list \<times> repetition) list \<Rightarrow> error + rstate" where
  "run_reps cfg seq data st [] = Inr st"
| "run_reps cfg seq data st (p # ps) =
     (case run_rep cfg seq data st p of
        Inl e \<Rightarrow> Inl e
      | Inr st' \<Rightarrow> run_reps cfg seq data st' ps)"

subsection \<open>\<open>execute_graph\<close>\<close>

text \<open>\<^verbatim>\<open>zip(graph[1:], seq)\<close>.\<close>

definition rep_pairs :: "graph \<Rightarrow> sequence \<Rightarrow> (addr list \<times> repetition) list" where
  "rep_pairs g seq = zip (drop 1 g) (reps seq)"

text \<open>What the call returns: the signal, and \<open>mag_adc\<close> with it when it was asked for.\<close>

datatype result =
    Signal "complex list list"
  | SignalMag "complex list list" "complex vox list list list"

fun signal_of :: "result \<Rightarrow> complex list list" where
  "signal_of (Signal s) = s"
| "signal_of (SignalMag s m) = s"

text \<open>Seeding \<^verbatim>\<open>graph[0][0]\<close> (lines 109 to 118).\<close>

definition seed :: "config \<Rightarrow> heap \<Rightarrow> addr \<Rightarrow> heap" where
  "seed cfg h a =
     h(a := (h a)\<lparr>mag := Some (case intitial_mag cfg of None \<Rightarrow> (\<lambda>v. 1) | Some m \<Rightarrow> m),
                  kt_vec := zero4\<rparr>)"

text \<open>
  The whole call, from the heap before it to the returned value and the heap after it.
  \<^verbatim>\<open>graph[0][0]\<close> fails on an empty graph or an empty first list, and
  \<^verbatim>\<open>torch.cat\<close> fails on an empty list of tensors, that is when no repetition ran.
\<close>

definition execute_graph ::
  "config \<Rightarrow> graph \<Rightarrow> sequence \<Rightarrow> simdata \<Rightarrow> heap \<Rightarrow> error + result \<times> heap" where
  "execute_graph cfg g seq data h =
     (case g of
        [] \<Rightarrow> Inl IndexError
      | g0 # _ \<Rightarrow>
          (case g0 of
             [] \<Rightarrow> Inl IndexError
           | a0 # _ \<Rightarrow>
               (case run_reps cfg seq data (seed cfg h a0, 0, [], []) (rep_pairs g seq) of
                  Inl e \<Rightarrow> Inl e
                | Inr (h', t0, signal, mag_adc) \<Rightarrow>
                    if signal = [] then Inl RuntimeError
                    else if return_mag_adc cfg then Inr (SignalMag (concat signal) mag_adc, h')
                    else Inr (Signal (concat signal), h'))))"

subsection \<open>Single precision\<close>

text \<open>
  The number of single precision (binary32) that is nearest to a real \<open>x\<close> with
  \<open>1/2 \<le> x < 1\<close>: 24 bits of significand, so the numbers there are the multiples of
  \<open>2^-24\<close>. The tensors of the pass are of the type \<^verbatim>\<open>complex64\<close> (lines 102 and 110),
  whose parts are of single precision.
\<close>

definition binary32_below_one :: "real \<Rightarrow> real" where
  "binary32_below_one x = of_int (round (x * 2 ^ 24)) / 2 ^ 24"

subsection \<open>The contribution of an ancestor, in the words of the specification\<close>

definition known_labels :: "string set" where
  "known_labels = {''zz'', ''++'', ''z+'', ''+z'', ''-z'', ''-+''}"

text \<open>The coefficient that matches a transition label.\<close>

definition spec_coefficient :: "rf \<Rightarrow> string \<Rightarrow> complex vox" where
  "spec_coefficient c l =
     (if l = ''zz'' then (\<lambda>v. of_real (z_to_z c v))
      else if l = ''++'' then (\<lambda>v. of_real (p_to_p c v))
      else if l = ''z+'' then z_to_p c
      else if l = ''+z'' then p_to_z c
      else if l = ''-z'' then m_to_z c
      else m_to_p c)"

text \<open>
  Parent magnetisation times the coefficient for the labels zz, ++, z+ and +z; the complex
  conjugate of the parent magnetisation times the coefficient for -z and -+.
\<close>

definition spec_contribution :: "rf \<Rightarrow> string \<Rightarrow> complex vox \<Rightarrow> complex vox" where
  "spec_contribution c l m =
     (\<lambda>v. (if l = ''-z'' \<or> l = ''-+'' then cnj (m v) else m v) * spec_coefficient c l v)"

subsection \<open>Example inputs\<close>

text \<open>A phantom of one voxel and one coil, without motion and without diffusion.\<close>

definition ex_data :: simdata where
  "ex_data = \<lparr>PD = (\<lambda>v. 1), T1 = (\<lambda>v. 1), T2 = (\<lambda>v. 1), T2dash = (\<lambda>v. 1),
     D = (\<lambda>v. 0), B0 = (\<lambda>v. 0), B1 = [\<lambda>v. 1], coil_sens = [\<lambda>v. 1],
     size_fov = (1, 1, 1), voxel_pos = (\<lambda>v. (0, 0, 0)), nyquist = (1, 1, 1),
     dephasing_func = (\<lambda>k n. 1), voxel_motion = None, phantom_motion = None,
     voxel_count = 1\<rparr>"

text \<open>An event of duration 1 without gradient that is measured.\<close>

definition ex_event :: event where
  "ex_event = \<lparr>gradm = (0, 0, 0), event_time = 1, adc_usage = 1, adc_phase = 0\<rparr>"

text \<open>A repetition of one event after a pulse of flip angle \<open>a\<close> and phase 0 on one channel.\<close>

definition ex_rep :: "real \<Rightarrow> repetition" where
  "ex_rep a = \<lparr>pulse_angle = a, pulse_phase = 0, shim_array = [(1, 0)], events = [ex_event]\<rparr>"

text \<open>The default thresholds of the call, with release of the magnetisation.\<close>

definition ex_cfg :: config where
  "ex_cfg = \<lparr>min_emitted_signal = 0.01, min_latent_signal = 0.01, return_mag_adc = False,
     clear_state_mag = True, intitial_mag = None\<rparr>"

definition ex_node :: "string \<Rightarrow> real \<Rightarrow> (string \<times> addr) list \<Rightarrow> dist" where
  "ex_node ty s ancs =
     \<lparr>dist_type = ty, latent_signal = s, emitted_signal = s, ancestors = ancs,
      mag = None, kt_vec = (0, 0, 0, 0)\<rparr>"

text \<open>
  A heap before the pass, nothing simulated yet. Object 0 is the relaxed state. Objects 1
  and 3 have a latent signal below the threshold, 6 descends from 3 only, 4 has the type
  of the transverse minus pathway, and the edge of 5 has a label that does not exist.
\<close>

definition ex_heap :: heap where
  "ex_heap = (\<lambda>a. ex_node ''z'' 0 [])
     (0 := ex_node ''z0'' 1 [],
      1 := ex_node ''z0'' 0 [(''zz'', 0)],
      2 := ex_node ''+'' 1 [(''z+'', 0)],
      3 := ex_node ''z'' 0 [(''zz'', 0)],
      4 := ex_node ''-'' 1 [(''z+'', 0)],
      5 := ex_node ''z'' 1 [(''??'', 0)],
      6 := ex_node ''z'' 1 [(''zz'', 3)])"

text \<open>The heap after the relaxed state was seeded.\<close>

definition ex_h0 :: heap where
  "ex_h0 = seed ex_cfg ex_heap 0"

text \<open>A sequence of one repetition with a pulse of angle 0, and its coefficients and context.\<close>

definition ex_seq :: sequence where
  "ex_seq = \<lparr>normalized_grads = False, reps = [ex_rep 0]\<rparr>"

definition ex_rf :: rf where
  "ex_rf = rf_coeffs (\<lambda>v. 0) (\<lambda>v. 0)"

definition ex_ctx :: repctx where
  "ex_ctx = rep_ctx ex_seq ex_data 0 (ex_rep 0) ex_rf"

text \<open>The same repetition with two shim channels, one more than the phantom has coils.\<close>

definition ex_pTx_seq :: sequence where
  "ex_pTx_seq =
     \<lparr>normalized_grads = False, reps = [(ex_rep 0)\<lparr>shim_array := [(1, 0), (1, 0)]\<rparr>]\<rparr>"

text \<open>
  A phantom with two transmit coils, and a repetition with two shim channels of amplitudes
  1 and 2: the combined field is 3, and the pulse of angle \<open>pi / 6\<close> acts as one of
  \<open>pi / 2\<close>.
\<close>

definition ex_data_pTx :: simdata where
  "ex_data_pTx = ex_data\<lparr>B1 := [\<lambda>v. 1, \<lambda>v. 1]\<rparr>"

definition ex_rep_pTx :: repetition where
  "ex_rep_pTx = \<lparr>pulse_angle = pi / 6, pulse_phase = 0, shim_array = [(1, 0), (2, 0)],
     events = [ex_event]\<rparr>"

section \<open>Properties\<close>

subsection \<open>Basic facts\<close>

lemma sum_vox_eq: "sum_vox ms v = sum_list (map (\<lambda>m. m v) ms)"
proof -
  have "foldl (\<lambda>acc m. (\<lambda>v. acc v + m v)) a ms v = a v + sum_list (map (\<lambda>m. m v) ms)" for a
    by (induction ms arbitrary: a) (simp_all add: add.assoc)
  then show ?thesis by (simp add: sum_vox_def)
qed

lemma Arg_one: "Arg 1 = 0"
  by (rule cis_Arg_unique) simp_all

lemma ex_rep_fields:
  "pulse_angle (ex_rep a) = a" "pulse_phase (ex_rep a) = 0"
  "shim_array (ex_rep a) = [(1, 0)]" "events (ex_rep a) = [ex_event]"
  by (simp_all add: ex_rep_def)

lemma ex_combined: "combined_B1 ex_data (ex_rep a) = Inr (\<lambda>v. 1)"
  by (simp add: combined_B1_def ex_data_def ex_rep_fields)

lemma ex_pulse: "pulse_coeffs ex_data (ex_rep a) = Inr (rf_coeffs (\<lambda>v. a) (\<lambda>v. 0))"
  by (simp add: pulse_coeffs_def ex_combined eff_angle_def eff_phase_def ex_rep_fields Arg_one)

lemma ex_h0_simps:
  "ex_h0 0 = (ex_node ''z0'' 1 [])\<lparr>mag := Some (\<lambda>v. 1), kt_vec := zero4\<rparr>"
  "ex_h0 1 = ex_node ''z0'' 0 [(''zz'', 0)]"
  "ex_h0 2 = ex_node ''+'' 1 [(''z+'', 0)]"
  "ex_h0 3 = ex_node ''z'' 0 [(''zz'', 0)]"
  "ex_h0 4 = ex_node ''-'' 1 [(''z+'', 0)]"
  "ex_h0 5 = ex_node ''z'' 1 [(''??'', 0)]"
  "ex_h0 6 = ex_node ''z'' 1 [(''zz'', 3)]"
  by (simp_all add: ex_h0_def seed_def ex_heap_def ex_cfg_def)

lemma ex_node_simps:
  "dist_type (ex_node ty s ancs) = ty" "latent_signal (ex_node ty s ancs) = s"
  "emitted_signal (ex_node ty s ancs) = s" "ancestors (ex_node ty s ancs) = ancs"
  "mag (ex_node ty s ancs) = None" "kt_vec (ex_node ty s ancs) = (0, 0, 0, 0)"
  by (simp_all add: ex_node_def)

lemma ex_cfg_simps:
  "min_emitted_signal ex_cfg = 0.01" "min_latent_signal ex_cfg = 0.01"
  "return_mag_adc ex_cfg = False" "clear_state_mag ex_cfg = True" "intitial_mag ex_cfg = None"
  by (simp_all add: ex_cfg_def)

lemmas ex_simps = ex_h0_simps ex_node_simps ex_cfg_simps

lemma ex_evolve_2:
  "\<exists>h'. evolve ex_cfg c ex_h0 2 = Inr (Some h')"
  by (simp add: evolve_def Let_def simulated_def ex_simps calc_mag_def new_kt_vec_def)

subsection \<open>The state evolver\<close>

lemma calc_mag_simulated:
  assumes "mag (h (snd a)) = Some m"
  shows "calc_mag c h a =
     (if fst a \<in> known_labels then Inr (spec_contribution c (fst a) m)
      else Inl (ValueError (''Unknown transform '' @ fst a)))"
  using assms
  by (simp add: calc_mag_def known_labels_def spec_contribution_def spec_coefficient_def)

lemma calc_mags_Inr:
  assumes "calc_mags c h ancs = Inr ms" and "\<forall>a\<in>set ancs. mag (h (snd a)) \<noteq> None"
  shows "(\<forall>a\<in>set ancs. fst a \<in> known_labels)
       \<and> ms = map (\<lambda>a. spec_contribution c (fst a) (the (mag (h (snd a))))) ancs"
  using assms
proof (induction ancs arbitrary: ms)
  case Nil
  then show ?case by simp
next
  case (Cons a ancs)
  from Cons.prems(2) obtain m where m: "mag (h (snd a)) = Some m" by auto
  from Cons.prems(1) obtain x xs where x: "calc_mag c h a = Inr x"
    and xs: "calc_mags c h ancs = Inr xs" and ms: "ms = x # xs"
    by (auto split: sum.splits)
  from x m have "fst a \<in> known_labels" and "x = spec_contribution c (fst a) m"
    by (auto simp: calc_mag_simulated split: if_splits)
  moreover from Cons.IH [OF xs] Cons.prems(2)
  have "(\<forall>a\<in>set ancs. fst a \<in> known_labels)
       \<and> xs = map (\<lambda>a. spec_contribution c (fst a) (the (mag (h (snd a))))) ancs" by simp
  ultimately show ?case using ms m by simp
qed

lemma simulated_mag: "a \<in> set (simulated h ancs) \<Longrightarrow> mag (h (snd a)) \<noteq> None"
  by (simp add: simulated_def)

lemma new_kt_vec_mag_update:
  "new_kt_vec (h(d := (h d)\<lparr>mag := x\<rparr>)) ty ancs = new_kt_vec h ty ancs"
  by (auto simp: new_kt_vec_def split: list.splits)

lemma evolve_Some:
  assumes "evolve cfg c h d = Inr (Some h')"
  shows "\<exists>ms kt. calc_mags c h (simulated h (ancestors (h d))) = Inr ms
     \<and> new_kt_vec h (dist_type (h d)) (simulated h (ancestors (h d))) = Inr kt
     \<and> h' = h(d := (h d)\<lparr>mag := Some (sum_vox ms), kt_vec := kt\<rparr>)
     \<and> (dist_type (h d) = ''z0''
        \<or> (\<not> latent_signal (h d) < min_latent_signal cfg
            \<and> simulated h (ancestors (h d)) \<noteq> []))"
  using assms
  by (auto simp: evolve_def Let_def new_kt_vec_mag_update split: if_splits sum.splits)

lemma evolve_None_iff:
  "evolve cfg c h d = Inr None \<longleftrightarrow>
     dist_type (h d) \<noteq> ''z0''
     \<and> (latent_signal (h d) < min_latent_signal cfg \<or> simulated h (ancestors (h d)) = [])"
  by (auto simp: evolve_def Let_def split: if_splits sum.splits)

subsection \<open>C1: the RF transition coefficients\<close>

lemma sqrt2_bounds: "16777216 * sqrt 2 > 23726565" "16777216 * sqrt 2 < 23726567"
proof -
  have "(23726565 / 16777216)\<^sup>2 < (2::real)" by (simp add: power2_eq_square)
  then have "23726565 / 16777216 < sqrt 2" by (rule real_less_rsqrt)
  then show "16777216 * sqrt 2 > 23726565" by simp
  have "(2::real) < (23726567 / 16777216)\<^sup>2" by (simp add: power2_eq_square)
  then have "sqrt 2 < 23726567 / 16777216" by (intro real_less_lsqrt) simp_all
  then show "16777216 * sqrt 2 < 23726567" by simp
qed

lemma inverse_sqrt2: "1 / sqrt 2 = sqrt 2 / 2"
  by (simp add: real_div_sqrt)

lemma binary32_literal: "binary32_below_one 0.70710678118 = 11863283 / 2 ^ 24"
proof -
  have "round ((0.70710678118::real) * 2 ^ 24) = 11863283"
    by (rule round_unique) simp_all
  then show ?thesis by (simp add: binary32_below_one_def)
qed

lemma binary32_inverse_sqrt2: "binary32_below_one (1 / sqrt 2) = 11863283 / 2 ^ 24"
proof -
  have "round (1 / sqrt 2 * 2 ^ 24) = 11863283"
    unfolding inverse_sqrt2 using sqrt2_bounds by (intro round_unique) simp_all
  then show ?thesis by (simp add: binary32_below_one_def)
qed

lemma inverse_sqrt2_range: "1 / 2 \<le> 1 / sqrt 2" "1 / sqrt 2 < 1"
proof -
  have "sqrt 2 \<le> 2" by (intro real_le_lsqrt) simp_all
  then show "1 / 2 \<le> 1 / sqrt 2" by (simp add: field_simps)
  have "1 < sqrt 2" by (intro real_less_rsqrt) simp
  then show "1 / sqrt 2 < 1" by simp
qed

text \<open>
  C1: whenever the coefficients of a repetition are computed, they are, for every voxel,
  \<open>z_to_z = cos(angle)\<close>, \<open>p_to_p = cos(angle/2)^2\<close>,
  \<open>z_to_p = - k i sin(angle) exp(i phase)\<close>, \<open>p_to_z = - conj(z_to_p)\<close>,
  \<open>m_to_z = - z_to_p\<close> and \<open>m_to_p = (1 - p_to_p) exp(2 i phase)\<close>. Here angle is the
  pulse angle times \<open>|combined B1|\<close> and phase is the pulse phase plus
  \<open>arg(combined B1)\<close>; the combined B1 is the sum over the coils of the transmit field
  times the shim weight \<open>amplitude exp(- i shim phase)\<close> when there is more than one shim
  channel, and the plain sum of the fields otherwise. The factor \<open>k\<close> is written in the
  source as the literal 0.70710678118: this and \<open>1 / sqrt 2\<close> both lie between 1/2 and 1
  and are the same number of the single precision in which the pass computes.
\<close>

theorem rf_coefficients:
  assumes "pulse_coeffs data rep = Inr c"
  shows "\<exists>b1. b1 = (if 1 < length (shim_array rep)
                    then (\<lambda>v. \<Sum>(f, a, p)\<leftarrow>zip (B1 data) (shim_array rep).
                                  f v * (of_real a * exp (- \<i> * of_real p)))
                    else (\<lambda>v. \<Sum>f\<leftarrow>B1 data. f v))
    \<and> (\<forall>v. z_to_z c v = cos (pulse_angle rep * cmod (b1 v))
          \<and> p_to_p c v = (cos (pulse_angle rep * cmod (b1 v) / 2))\<^sup>2
          \<and> z_to_p c v = - (0.70710678118 * \<i>) * of_real (sin (pulse_angle rep * cmod (b1 v)))
                             * exp (\<i> * of_real (pulse_phase rep + Arg (b1 v)))
          \<and> p_to_z c v = - cnj (z_to_p c v)
          \<and> m_to_z c v = - z_to_p c v
          \<and> m_to_p c v = of_real (1 - p_to_p c v)
                             * exp (2 * \<i> * of_real (pulse_phase rep + Arg (b1 v))))
    \<and> 1 / 2 \<le> (0.70710678118::real) \<and> (0.70710678118::real) < 1
    \<and> 1 / 2 \<le> 1 / sqrt 2 \<and> 1 / sqrt 2 < 1
    \<and> binary32_below_one 0.70710678118 = binary32_below_one (1 / sqrt 2)"
proof -
  from assms obtain b1 where b: "combined_B1 data rep = Inr b1"
    and c: "c = rf_coeffs (eff_angle rep b1) (eff_phase rep b1)"
    by (auto simp: pulse_coeffs_def split: sum.splits)
  have weights: "(\<lambda>v. \<Sum>(f, s)\<leftarrow>zip (B1 data) (shim_array rep). f v * shim_weight s)
               = (\<lambda>v. \<Sum>(f, a, p)\<leftarrow>zip (B1 data) (shim_array rep).
                         f v * (of_real a * exp (- \<i> * of_real p)))"
    by (simp add: shim_weight_def split_def)
  have shape: "b1 = (if 1 < length (shim_array rep)
                    then (\<lambda>v. \<Sum>(f, a, p)\<leftarrow>zip (B1 data) (shim_array rep).
                                  f v * (of_real a * exp (- \<i> * of_real p)))
                    else (\<lambda>v. \<Sum>f\<leftarrow>B1 data. f v))"
  proof (cases "length (shim_array rep) = 1")
    case True
    with b show ?thesis by (simp add: combined_B1_def)
  next
    case False
    with b have len: "length (shim_array rep) = length (B1 data)"
      and v: "b1 = (\<lambda>v. \<Sum>(f, s)\<leftarrow>zip (B1 data) (shim_array rep). f v * shim_weight s)"
      by (auto simp: combined_B1_def split: if_splits)
    show ?thesis
    proof (cases "1 < length (shim_array rep)")
      case True
      with v weights show ?thesis by simp
    next
      case no_channel: False
      with False have "length (shim_array rep) = 0" by arith
      with len have "B1 data = []" "shim_array rep = []" by simp_all
      with v no_channel show ?thesis by simp
    qed
  qed
  have coeffs: "\<forall>v. z_to_z c v = cos (pulse_angle rep * cmod (b1 v))
          \<and> p_to_p c v = (cos (pulse_angle rep * cmod (b1 v) / 2))\<^sup>2
          \<and> z_to_p c v = - (0.70710678118 * \<i>) * of_real (sin (pulse_angle rep * cmod (b1 v)))
                             * exp (\<i> * of_real (pulse_phase rep + Arg (b1 v)))
          \<and> p_to_z c v = - cnj (z_to_p c v)
          \<and> m_to_z c v = - z_to_p c v
          \<and> m_to_p c v = of_real (1 - p_to_p c v)
                             * exp (2 * \<i> * of_real (pulse_phase rep + Arg (b1 v)))"
    unfolding c by (simp add: rf_coeffs_def eff_angle_def eff_phase_def Let_def)
  have single: "binary32_below_one 0.70710678118 = binary32_below_one (1 / sqrt 2)"
    by (simp only: binary32_literal binary32_inverse_sqrt2)
  have range: "1 / 2 \<le> (0.70710678118::real)" "(0.70710678118::real) < 1" by simp_all
  from shape coeffs single range inverse_sqrt2_range show ?thesis by blast
qed

lemma Arg_three: "Arg 3 = 0"
  by (rule cis_Arg_unique) (simp_all add: sgn_eq)

lemma ex_pTx_pulse: "\<exists>c. pulse_coeffs ex_data_pTx ex_rep_pTx = Inr c"
  by (simp add: pulse_coeffs_def combined_B1_def ex_data_pTx_def ex_data_def ex_rep_pTx_def)

theorem rf_coefficients_witness:
  "\<exists>c. pulse_coeffs ex_data_pTx ex_rep_pTx = Inr c
     \<and> z_to_z c 0 = 0 \<and> p_to_p c 0 = 1 / 2 \<and> z_to_p c 0 = - (0.70710678118 * \<i>)
     \<and> m_to_p c 0 = 1 / 2"
proof -
  from ex_pTx_pulse obtain c where p: "pulse_coeffs ex_data_pTx ex_rep_pTx = Inr c" by blast
  from rf_coefficients [OF p] obtain b1 :: "complex vox" where
    b1: "b1 = (if 1 < length (shim_array ex_rep_pTx)
                    then (\<lambda>v. \<Sum>(f, a, p)\<leftarrow>zip (B1 ex_data_pTx) (shim_array ex_rep_pTx).
                                  f v * (of_real a * exp (- \<i> * of_real p)))
                    else (\<lambda>v. \<Sum>f\<leftarrow>B1 ex_data_pTx. f v))"
    and cs: "\<forall>v. z_to_z c v = cos (pulse_angle ex_rep_pTx * cmod (b1 v))
          \<and> p_to_p c v = (cos (pulse_angle ex_rep_pTx * cmod (b1 v) / 2))\<^sup>2
          \<and> z_to_p c v = - (0.70710678118 * \<i>) * of_real (sin (pulse_angle ex_rep_pTx * cmod (b1 v)))
                             * exp (\<i> * of_real (pulse_phase ex_rep_pTx + Arg (b1 v)))
          \<and> p_to_z c v = - cnj (z_to_p c v)
          \<and> m_to_z c v = - z_to_p c v
          \<and> m_to_p c v = of_real (1 - p_to_p c v)
                             * exp (2 * \<i> * of_real (pulse_phase ex_rep_pTx + Arg (b1 v)))"
    by blast
  from b1 have three: "b1 = (\<lambda>v. 3)"
    by (simp add: ex_data_pTx_def ex_data_def ex_rep_pTx_def)
  have angle: "pulse_angle ex_rep_pTx * cmod 3 = pi / 2" "pulse_phase ex_rep_pTx = 0"
    by (simp_all add: ex_rep_pTx_def)
  note at0 = cs [rule_format, of 0, unfolded three angle]
  from at0 have zz: "z_to_z c 0 = 0" by simp
  from at0 have pp: "p_to_p c 0 = 1 / 2" by (simp add: cos_45 power_divide)
  from at0 have zp: "z_to_p c 0 = - (0.70710678118 * \<i>)" by (simp add: Arg_three)
  from at0 have "m_to_p c 0 = of_real (1 - p_to_p c 0) * exp (2 * \<i> * of_real (0 + Arg 3))"
    by simp
  then have mp: "m_to_p c 0 = 1 / 2" unfolding pp by (simp add: Arg_three)
  from zz pp zp mp have "z_to_z c 0 = 0 \<and> p_to_p c 0 = 1 / 2
     \<and> z_to_p c 0 = - (0.70710678118 * \<i>) \<and> m_to_p c 0 = 1 / 2" by simp
  with p show ?thesis by blast
qed

subsection \<open>C2: the magnetisation of an evaluated node\<close>



subsection \<open>C3: skipped nodes\<close>



subsection \<open>C5: the recomputed \<open>kt_vec\<close>\<close>



subsection \<open>Lengths along the event axis, and the loop body of an evaluated node\<close>

lemma length_cumsum_from [simp]: "length (cumsum_from a xs) = length xs"
  by (induction xs arbitrary: a) simp_all

lemma length_cumsum4_from [simp]: "length (cumsum4_from a xs) = length xs"
  by (induction xs arbitrary: a) simp_all

lemma length_cumsum_vox_from [simp]: "length (cumsum_vox_from a xs) = length xs"
  by (induction xs arbitrary: a) simp_all

lemma cumsum_from_Nil_iff [simp]: "cumsum_from a xs = [] \<longleftrightarrow> xs = []"
  by (cases xs) simp_all

lemma last_cumsum_from_Cons: "last (cumsum_from a (x # xs)) = a + x + sum_list xs"
  by (induction xs arbitrary: a x) (simp_all add: add.assoc)

lemma last_cumsum_from: "xs \<noteq> [] \<Longrightarrow> last (cumsum_from a xs) = a + sum_list xs"
  by (cases xs) (simp_all add: last_cumsum_from_Cons add.assoc del: cumsum_from.simps)

lemma length_trajectory_of [simp]: "length (trajectory_of gs rep) = length (events rep)"
  by (simp add: trajectory_of_def)

lemma length_dist_traj_of [simp]: "length (dist_traj_of kt traj) = length traj"
  by (simp add: dist_traj_of_def)

lemma length_b_factors [simp]:
  "length (b_factors kt dts dtraj) = min (length dts) (length dtraj)"
  by (cases dtraj rule: rev_cases) (simp_all add: b_factors_def Let_def)

lemma length_diffusion_of [simp]: "length (diffusion_of data b) = length b"
  by (simp add: diffusion_of_def)

lemma last_diffusion_of:
  "b \<noteq> [] \<Longrightarrow> last (diffusion_of data b) = (\<lambda>v. exp (- 0.000000001 * D data v * sum_list b))"
  by (simp add: diffusion_of_def last_map last_cumsum_from)

lemma rep_ctx_simps [simp]:
  "coeffs (rep_ctx seq data t0 rep c) = c"
  "adc (rep_ctx seq data t0 rep c) = adc_mask rep"
  "trajectory (rep_ctx seq data t0 rep c) = trajectory_of (grad_scale seq data) rep"
  "dt (rep_ctx seq data t0 rep c) = map event_time (events rep)"
  "total_time (rep_ctx seq data t0 rep c) = total_time_of rep"
  "r1 (rep_ctx seq data t0 rep c) = (\<lambda>v. exp (- total_time_of rep / \<bar>T1 data v\<bar>))"
  "r2 (rep_ctx seq data t0 rep c) = (\<lambda>v. exp (- total_time_of rep / \<bar>T2 data v\<bar>))"
  "adc_rot (rep_ctx seq data t0 rep c) = map (\<lambda>e. exp (\<i> * of_real (adc_phase e))) (events rep)"
  "motion_phase (rep_ctx seq data t0 rep c)
     = motion_phase_of data (grad_scale seq data) t0 rep (trajectory_of (grad_scale seq data) rep)"
  by (simp_all add: rep_ctx_def Let_def)

lemma process_dist_evaluated:
  assumes "evolve cfg (coeffs ctx) h d = Inr (Some h1)"
    and "process_dist cfg data ctx (h, rep_sig, mag_adc_rep) d = Inr (h2, rep_sig', mag_adc_rep')"
  shows "trajectory ctx \<noteq> []
    \<and> carry_over data ctx h1 d (dist_traj_of (kt_vec (h1 d)) (trajectory ctx))
         (diffusion_of data (b_factors (kt_vec (h1 d)) (dt ctx)
            (dist_traj_of (kt_vec (h1 d)) (trajectory ctx)))) = Inr h2
    \<and> (if dist_type (h1 d) = ''+'' \<and> emitted_signal (h1 d) \<ge> min_emitted_signal cfg
        then measure_dist cfg data ctx h1 d (dist_traj_of (kt_vec (h1 d)) (trajectory ctx))
               (diffusion_of data (b_factors (kt_vec (h1 d)) (dt ctx)
                  (dist_traj_of (kt_vec (h1 d)) (trajectory ctx)))) (rep_sig, mag_adc_rep)
        else Inr (rep_sig, mag_adc_rep)) = Inr (rep_sig', mag_adc_rep')"
  using assms
  by (auto simp: process_dist_def Let_def split: if_splits sum.splits prod.splits)

lemma evolve_static:
  assumes "evolve cfg c h d = Inr (Some h1)"
  shows "dist_type (h1 a) = dist_type (h a)" "latent_signal (h1 a) = latent_signal (h a)"
    "emitted_signal (h1 a) = emitted_signal (h a)" "ancestors (h1 a) = ancestors (h a)"
    "mag (h1 d) \<noteq> None" "a \<noteq> d \<Longrightarrow> h1 a = h a"
  using evolve_Some [OF assms] by auto

subsection \<open>C6: the carry-over into the next repetition\<close>



lemma carry_over_total:
  "mag (h d) \<noteq> None \<Longrightarrow> \<exists>h2. carry_over data ctx h d dtraj diffusion = Inr h2"
  by (auto simp: carry_over_def Let_def split: prod.splits)

lemma measure_dist_total:
  "mag (h d) \<noteq> None \<Longrightarrow> \<exists>r. measure_dist cfg data ctx h d dtraj diffusion acc = Inr r"
  by (cases acc) (auto simp: measure_dist_def Let_def)

text \<open>An evaluated node never fails in a repetition that has an event.\<close>

lemma process_dist_total:
  assumes "evolve cfg (coeffs ctx) h d = Inr (Some h1)" and "trajectory ctx \<noteq> []"
  shows "\<exists>h2 rep_sig' mag_adc_rep'.
           process_dist cfg data ctx (h, rep_sig, mag_adc_rep) d = Inr (h2, rep_sig', mag_adc_rep')"
proof -
  let ?dtraj = "dist_traj_of (kt_vec (h1 d)) (trajectory ctx)"
  let ?diff = "diffusion_of data (b_factors (kt_vec (h1 d)) (dt ctx) ?dtraj)"
  have m: "mag (h1 d) \<noteq> None" by (rule evolve_static [OF assms(1)])
  from carry_over_total [of h1 d data ctx ?dtraj ?diff] m obtain h2 where
    "carry_over data ctx h1 d ?dtraj ?diff = Inr h2" by blast
  moreover from measure_dist_total [of h1 d cfg data ctx ?dtraj ?diff "(rep_sig, mag_adc_rep)"] m
  obtain r where
    "measure_dist cfg data ctx h1 d ?dtraj ?diff (rep_sig, mag_adc_rep) = Inr r" by blast
  ultimately show ?thesis using assms
    by (cases r) (auto simp: process_dist_def Let_def)
qed

lemma ex_event_simps:
  "gradm ex_event = (0, 0, 0)" "event_time ex_event = 1" "adc_usage ex_event = 1"
  "adc_phase ex_event = 0"
  by (simp_all add: ex_event_def)

lemma ex_ctx_simps:
  "coeffs ex_ctx = ex_rf" "trajectory ex_ctx = [(0, 0, 0, 1)]" "adc ex_ctx = [True]"
  "dt ex_ctx = [1]" "total_time ex_ctx = 1" "motion_phase ex_ctx = None"
  by (simp_all add: ex_ctx_def trajectory_of_def ex_rep_fields ex_event_simps zero4_def
      grad_scale_def ex_seq_def adc_mask_def total_time_of_def motion_phase_of_def
      voxel_pos_func_def ex_data_def)

lemma ex_evolve_total:
  "\<exists>h1. evolve ex_cfg c ex_h0 1 = Inr (Some h1)"
  "\<exists>h1. evolve ex_cfg c ex_h0 2 = Inr (Some h1)"
  "\<exists>h1. evolve ex_cfg c ex_h0 4 = Inr (Some h1)"
  by (simp_all add: evolve_def Let_def simulated_def ex_simps calc_mag_def new_kt_vec_def
      del: One_nat_def)



subsection \<open>C8: no motion model\<close>

lemma masked_map: "masked a (map f xs) = map f (masked a xs)"
  by (induction a xs rule: masked.induct) simp_all

lemma zip_map_const: "zip xs (map (\<lambda>_. c) ys) = map (\<lambda>x. (x, c)) (take (length ys) xs)"
proof (induction xs arbitrary: ys)
  case Nil
  then show ?case by simp
next
  case (Cons x xs)
  then show ?case by (cases ys) simp_all
qed

lemma transverse_mag_row_zero_phase:
  "transverse_mag_row data m (dtj, tj, dif, Some (\<lambda>v. 0))
     = transverse_mag_row data m (dtj, tj, dif, None)"
  by (simp add: transverse_mag_row_def)

lemma transverse_mag_zero_phase:
  assumes "motion_phase ctx = None" and "length es = length (trajectory ctx)"
  shows "transverse_mag data (ctx\<lparr>motion_phase := Some (map (\<lambda>e. (\<lambda>v. 0)) es)\<rparr>) m dtraj diffusion
       = transverse_mag data ctx m dtraj diffusion"
proof -
  let ?n = "length (trajectory ctx)"
  let ?inner = "zip dtraj (zip (trajectory ctx) (take ?n diffusion))"
  have a: "zip dtraj (zip (trajectory ctx) (zip diffusion (map (\<lambda>_. c) (trajectory ctx))))
         = map (\<lambda>(x, y, z). (x, y, z, c)) ?inner" for c :: "real vox option"
    by (simp add: zip_map_const zip_map2 split_def)
  have b: "map Some (map (\<lambda>e. (\<lambda>v. 0)) es) = map (\<lambda>_. Some (\<lambda>v. 0 :: real)) es" by simp
  have c: "zip dtraj (zip (trajectory ctx) (zip diffusion (map (\<lambda>_. c) es)))
         = map (\<lambda>(x, y, z). (x, y, z, c)) ?inner" for c :: "real vox option"
    using assms(2) by (simp add: zip_map_const zip_map2 split_def)
  have d: "transverse_mag_row data m \<circ> (\<lambda>(x, y, z). (x, y, z, Some (\<lambda>v. 0)))
         = transverse_mag_row data m \<circ> (\<lambda>(x, y, z). (x, y, z, None))"
    by (rule ext) (simp add: split_def transverse_mag_row_zero_phase)
  have rows: "motion_rows (ctx\<lparr>motion_phase := Some (map (\<lambda>e. (\<lambda>v. 0)) es)\<rparr>)
               = map (\<lambda>_. Some (\<lambda>v. 0)) es"
    by (simp add: motion_rows_def)
  have rows': "motion_rows ctx = map (\<lambda>_. None) (trajectory ctx)"
    using assms(1) by (simp add: motion_rows_def)
  have "transverse_mag data (ctx\<lparr>motion_phase := Some (map (\<lambda>e. (\<lambda>v. 0)) es)\<rparr>) m dtraj diffusion
      = map (transverse_mag_row data m)
          (masked (adc ctx) (map (\<lambda>(x, y, z). (x, y, z, Some (\<lambda>v. 0))) ?inner))"
    by (simp add: transverse_mag_def rows c)
  also have "\<dots> = map (transverse_mag_row data m \<circ> (\<lambda>(x, y, z). (x, y, z, Some (\<lambda>v. 0))))
          (masked (adc ctx) ?inner)"
    unfolding masked_map by simp
  also have "\<dots> = map (transverse_mag_row data m \<circ> (\<lambda>(x, y, z). (x, y, z, None)))
          (masked (adc ctx) ?inner)"
    by (simp only: d)
  also have "\<dots> = map (transverse_mag_row data m)
          (masked (adc ctx) (map (\<lambda>(x, y, z). (x, y, z, None)) ?inner))"
    unfolding masked_map by simp
  also have "\<dots> = transverse_mag data ctx m dtraj diffusion"
    by (simp add: transverse_mag_def rows' a)
  finally show ?thesis .
qed

lemma motion_phase_of_no_motion:
  assumes "voxel_motion data = None" and "phantom_motion data = None"
  shows "motion_phase_of data gs t0 rep traj = None"
  using assms by (simp add: motion_phase_of_def voxel_pos_func_def)

text \<open>
  C8: when the phantom data has neither a voxel position function nor a rigid motion
  function, the pass keeps no motion phase tensor; a row of the transverse magnetisation
  at an ADC sample is the row with motion phase 0; and the whole loop body, for every
  node, does what it does with a motion phase tensor of zeros: the signal of the
  repetition, the recorded magnetisations and the carried-over state are the same.
\<close>

theorem no_motion_model_zero_phase:
  assumes "voxel_motion data = None" and "phantom_motion data = None"
  shows "motion_phase (rep_ctx seq data t0 rep c) = None
    \<and> transverse_mag_row data m (dtj, tj, dif, None) = transverse_mag_row data m (dtj, tj, dif, Some (\<lambda>v. 0))
    \<and> process_dist cfg data (rep_ctx seq data t0 rep c) st d
      = process_dist cfg data
          ((rep_ctx seq data t0 rep c)\<lparr>motion_phase := Some (map (\<lambda>e. (\<lambda>v. 0)) (events rep))\<rparr>) st d"
proof -
  let ?ctx = "rep_ctx seq data t0 rep c"
  let ?zero = "?ctx\<lparr>motion_phase := Some (map (\<lambda>e. (\<lambda>v. 0)) (events rep))\<rparr>"
  from assms have none: "motion_phase ?ctx = None"
    by (simp add: motion_phase_of_no_motion)
  have len: "length (events rep) = length (trajectory ?ctx)" by simp
  have tm: "transverse_mag data ?zero m' dtraj diffusion = transverse_mag data ?ctx m' dtraj diffusion"
    for m' dtraj diffusion
    by (rule transverse_mag_zero_phase [OF none len])
  have ms: "measure_dist cfg data ?zero h d dtraj diffusion acc
          = measure_dist cfg data ?ctx h d dtraj diffusion acc" for h dtraj diffusion acc
    by (simp add: measure_dist_def tm Let_def split: prod.splits option.splits)
  have co: "carry_over data ?zero h d dtraj diffusion = carry_over data ?ctx h d dtraj diffusion"
    if "events rep \<noteq> []" for h dtraj diffusion
    using that none by (simp add: carry_over_def Let_def last_map split: option.splits)
  have "process_dist cfg data ?ctx st d = process_dist cfg data ?zero st d"
  proof (cases "events rep = []")
    case True
    then show ?thesis
      by (simp add: process_dist_def trajectory_of_def split: prod.splits sum.splits option.splits)
  next
    case False
    then show ?thesis
      by (simp add: process_dist_def ms co [OF False] Let_def
          split: prod.splits sum.splits option.splits)
  qed
  with none show ?thesis by (simp add: transverse_mag_row_zero_phase)
qed

lemma ex_data_simps:
  "voxel_motion ex_data = None" "phantom_motion ex_data = None"
  "coil_sens ex_data = [\<lambda>v. 1]" "voxel_count ex_data = 1"
  by (simp_all add: ex_data_def)

theorem no_motion_model_zero_phase_witness:
  "voxel_motion ex_data = None \<and> phantom_motion ex_data = None
   \<and> motion_phase (rep_ctx ex_seq ex_data 0 (ex_rep 0) ex_rf) = None
   \<and> process_dist ex_cfg ex_data (rep_ctx ex_seq ex_data 0 (ex_rep 0) ex_rf) (ex_h0, [[0]], []) 2
      = process_dist ex_cfg ex_data
          ((rep_ctx ex_seq ex_data 0 (ex_rep 0) ex_rf)\<lparr>motion_phase := Some [\<lambda>v. 0]\<rparr>)
          (ex_h0, [[0]], []) 2"
  using no_motion_model_zero_phase [OF ex_data_simps(1) ex_data_simps(2),
      of ex_seq 0 "ex_rep 0" ex_rf _ _ _ _ ex_cfg "(ex_h0, [[0]], [])" 2]
  by (simp add: ex_data_simps ex_rep_fields)

subsection \<open>C7: the shape of the signal\<close>

lemma length_masked:
  "length a \<le> length xs \<Longrightarrow> length (masked a xs) = length (filter (\<lambda>b. b) a)"
  by (induction a xs rule: masked.induct) simp_all

lemma length_midpoints [simp]: "length (midpoints t0 traj) = length traj"
  by (simp add: midpoints_def Let_def)

lemma length_motion_rows:
  "length (motion_rows (rep_ctx seq data t0 rep c)) = length (events rep)"
  by (simp add: motion_rows_def motion_phase_of_def split: option.splits)

lemma length_transverse_mag:
  assumes "length dtraj = length (events rep)" and "length diffusion = length (events rep)"
  shows "length (transverse_mag data (rep_ctx seq data t0 rep c) m dtraj diffusion) = adc_count rep"
  using assms
  by (simp add: transverse_mag_def length_masked length_motion_rows adc_count_def adc_mask_def)

lemma length_coil_project [simp]: "length (coil_project data tm) = length (coil_sens data)"
  by (simp add: coil_project_def)

text \<open>A tensor of \<open>n\<close> rows and \<open>k\<close> columns.\<close>

lemma add_sig_shape:
  assumes "length rs = n" and "\<forall>row\<in>set rs. length row = k"
    and "length ds = n" and "\<forall>row\<in>set ds. length row = k"
  shows "length (add_sig rs ds) = n \<and> (\<forall>row\<in>set (add_sig rs ds). length row = k)"
proof -
  have "length row = k" if "row \<in> set (add_sig rs ds)" for row
  proof -
    from that obtain r s where "(r, s) \<in> set (zip rs ds)" and row: "row = map2 (\<lambda>x y. x + y) r s"
      by (auto simp: add_sig_def)
    then have "r \<in> set rs" "s \<in> set ds" by (auto dest: set_zip_leftD set_zip_rightD)
    with assms row show ?thesis by simp
  qed
  with assms show ?thesis by (simp add: add_sig_def)
qed

lemma process_dist_shape:
  assumes "process_dist cfg data (rep_ctx seq data t0 rep c) (h, rs, ma) d = Inr (h', rs', ma')"
    and "length rs = adc_count rep" and "\<forall>row\<in>set rs. length row = length (coil_sens data)"
  shows "length rs' = adc_count rep \<and> (\<forall>row\<in>set rs'. length row = length (coil_sens data))"
proof (cases "evolve cfg c h d")
  case (Inl e)
  with assms(1) show ?thesis by (simp add: process_dist_def)
next
  case (Inr r)
  show ?thesis
  proof (cases r)
    case None
    with Inr assms show ?thesis by (simp add: process_dist_def)
  next
    case (Some h1)
    let ?ctx = "rep_ctx seq data t0 rep c"
    let ?dtraj = "dist_traj_of (kt_vec (h1 d)) (trajectory ?ctx)"
    let ?diff = "diffusion_of data (b_factors (kt_vec (h1 d)) (dt ?ctx) ?dtraj)"
    from Inr Some have ev: "evolve cfg (coeffs ?ctx) h d = Inr (Some h1)" by simp
    note pe = process_dist_evaluated [OF ev assms(1)]
    show ?thesis
    proof (cases "dist_type (h1 d) = ''+'' \<and> emitted_signal (h1 d) \<ge> min_emitted_signal cfg")
      case False
      with pe have "rs' = rs" by auto
      with assms show ?thesis by simp
    next
      case True
      with pe have md: "measure_dist cfg data ?ctx h1 d ?dtraj ?diff (rs, ma) = Inr (rs', ma')"
        by simp
      then obtain m where
        rs': "rs' = add_sig rs (map (coil_project data) (transverse_mag data ?ctx m ?dtraj ?diff))"
        by (auto simp: measure_dist_def Let_def split: option.splits)
      have len: "length (map (coil_project data) (transverse_mag data ?ctx m ?dtraj ?diff))
                   = adc_count rep"
        by (simp add: length_transverse_mag)
      have rows: "\<forall>row\<in>set (map (coil_project data) (transverse_mag data ?ctx m ?dtraj ?diff)).
                    length row = length (coil_sens data)"
        by auto
      from add_sig_shape [OF assms(2) assms(3) len rows] rs' show ?thesis by simp
    qed
  qed
qed

lemma process_dists_shape:
  assumes "process_dists cfg data (rep_ctx seq data t0 rep c) (h, rs, ma) ds = Inr (h', rs', ma')"
    and "length rs = adc_count rep" and "\<forall>row\<in>set rs. length row = length (coil_sens data)"
  shows "length rs' = adc_count rep \<and> (\<forall>row\<in>set rs'. length row = length (coil_sens data))"
  using assms
proof (induction ds arbitrary: h rs ma)
  case Nil
  then show ?case by simp
next
  case (Cons d ds)
  from Cons.prems(1) obtain h1 rs1 ma1 where
    a: "process_dist cfg data (rep_ctx seq data t0 rep c) (h, rs, ma) d = Inr (h1, rs1, ma1)"
    and b: "process_dists cfg data (rep_ctx seq data t0 rep c) (h1, rs1, ma1) ds = Inr (h', rs', ma')"
    by (auto split: sum.splits)
  from process_dist_shape [OF a Cons.prems(2) Cons.prems(3)]
  have "length rs1 = adc_count rep" "\<forall>row\<in>set rs1. length row = length (coil_sens data)"
    by simp_all
  from Cons.IH [OF b this] show ?case .
qed

text \<open>What a repetition that finishes appends to the loop state.\<close>

lemma run_rep_Inr:
  assumes "run_rep cfg seq data (h, t0, signal, mag_adc) (dists, rep) = Inr (h', t0', signal', mag_adc')"
  shows "\<exists>seg mag_adc_rep. signal' = signal @ [seg] \<and> mag_adc' = mag_adc @ [mag_adc_rep]
    \<and> length seg = adc_count rep \<and> (\<forall>row\<in>set seg. length row = length (coil_sens data))"
proof -
  from assms obtain c hp rs ma where c: "pulse_coeffs data rep = Inr c"
    and pd: "process_dists cfg data (rep_ctx seq data t0 rep c)
               (h, replicate (adc_count rep) (replicate (length (coil_sens data)) 0), []) dists
             = Inr (hp, rs, ma)"
    and sig: "signal' = signal @ [map2 (\<lambda>row rot. map (\<lambda>x. x * rot) row) rs
                 (masked (adc_mask rep) (map (\<lambda>e. exp (\<i> * of_real (adc_phase e))) (events rep)))]"
    and ma: "mag_adc' = mag_adc @ [ma]"
    by (auto simp: run_rep_def Let_def split: sum.splits)
  from process_dists_shape [OF pd]
  have shape: "length rs = adc_count rep" "\<forall>row\<in>set rs. length row = length (coil_sens data)"
    by simp_all
  let ?seg = "map2 (\<lambda>row rot. map (\<lambda>x. x * rot) row) rs
                 (masked (adc_mask rep) (map (\<lambda>e. exp (\<i> * of_real (adc_phase e))) (events rep)))"
  have "length ?seg = adc_count rep"
    using shape(1) by (simp add: length_masked adc_count_def adc_mask_def)
  moreover have "length row = length (coil_sens data)" if "row \<in> set ?seg" for row
  proof -
    from that obtain r x where "(r, x) \<in> set (zip rs (masked (adc_mask rep)
        (map (\<lambda>e. exp (\<i> * of_real (adc_phase e))) (events rep))))"
      and "row = map (\<lambda>y. y * x) r" by auto
    then have "r \<in> set rs" "length row = length r" by (auto dest: set_zip_leftD)
    with shape(2) show ?thesis by simp
  qed
  ultimately show ?thesis using sig ma by blast
qed

lemma run_reps_Inr:
  assumes "run_reps cfg seq data (h, t0, signal, mag_adc) ps = Inr (h', t0', signal', mag_adc')"
  shows "\<exists>segs. signal' = signal @ segs
    \<and> map length segs = map (\<lambda>p. adc_count (snd p)) ps
    \<and> (\<forall>seg\<in>set segs. \<forall>row\<in>set seg. length row = length (coil_sens data))
    \<and> length mag_adc' = length mag_adc + length ps"
  using assms
proof (induction ps arbitrary: h t0 signal mag_adc)
  case Nil
  then show ?case by simp
next
  case (Cons p ps)
  obtain dists rep where p: "p = (dists, rep)" by (cases p)
  from Cons.prems p obtain h1 t1 s1 m1 where
    a: "run_rep cfg seq data (h, t0, signal, mag_adc) (dists, rep) = Inr (h1, t1, s1, m1)"
    and b: "run_reps cfg seq data (h1, t1, s1, m1) ps = Inr (h', t0', signal', mag_adc')"
    by (auto split: sum.splits)
  from run_rep_Inr [OF a] obtain seg mr where s1: "s1 = signal @ [seg]" and m1: "m1 = mag_adc @ [mr]"
    and seg: "length seg = adc_count rep" "\<forall>row\<in>set seg. length row = length (coil_sens data)"
    by blast
  from Cons.IH [OF b] obtain segs where segs: "signal' = s1 @ segs"
    "map length segs = map (\<lambda>p. adc_count (snd p)) ps"
    "\<forall>seg\<in>set segs. \<forall>row\<in>set seg. length row = length (coil_sens data)"
    "length mag_adc' = length m1 + length ps"
    by blast
  have "signal' = signal @ (seg # segs)" using s1 segs(1) by simp
  moreover have "map length (seg # segs) = map (\<lambda>p. adc_count (snd p)) (p # ps)"
    using seg(1) segs(2) p by simp
  moreover have "\<forall>s\<in>set (seg # segs). \<forall>row\<in>set s. length row = length (coil_sens data)"
    using seg(2) segs(3) by simp
  moreover have "length mag_adc' = length mag_adc + length (p # ps)"
    using segs(4) m1 by simp
  ultimately show ?case by blast
qed

lemma execute_graph_Inr:
  assumes "execute_graph cfg g seq data h = Inr (res, h')"
  shows "\<exists>a0 r0 gs t0 signal mag_adc. g = (a0 # r0) # gs
    \<and> run_reps cfg seq data (seed cfg h a0, 0, [], []) (rep_pairs g seq) = Inr (h', t0, signal, mag_adc)
    \<and> signal \<noteq> [] \<and> signal_of res = concat signal
    \<and> res = (if return_mag_adc cfg then SignalMag (concat signal) mag_adc else Signal (concat signal))"
  using assms
  by (auto simp: execute_graph_def split: list.splits sum.splits if_splits)



lemma ex_adc_count: "adc_count (ex_rep a) = 1"
  by (simp add: adc_count_def adc_mask_def ex_rep_fields ex_event_simps)

text \<open>The example sequence on a graph of the relaxed state and one more list of nodes.\<close>

lemma ex_execute_graph:
  assumes "process_dists ex_cfg ex_data ex_ctx (ex_h0, [[0]], []) ds = Inr (hp, rs, ma)"
  shows "\<exists>res. execute_graph ex_cfg [[0], ds] ex_seq ex_data ex_heap = Inr (res, clear_mags hp ds)"
proof -
  have pairs: "rep_pairs [[0], ds] ex_seq = [(ds, ex_rep 0)]"
    by (simp add: rep_pairs_def ex_seq_def)
  have pc: "pulse_coeffs ex_data (ex_rep 0) = Inr ex_rf"
    by (simp add: ex_pulse ex_rf_def)
  have "run_rep ex_cfg ex_seq ex_data (ex_h0, 0, [], []) (ds, ex_rep 0)
          = Inr (clear_mags hp ds, 0 + total_time ex_ctx,
                 [] @ [map2 (\<lambda>row rot. map (\<lambda>x. x * rot) row) rs
                         (masked (adc ex_ctx) (adc_rot ex_ctx))],
                 [] @ [ma])"
    using assms
    by (simp add: run_rep_def pc ex_adc_count ex_data_simps ex_cfg_simps Let_def
        ex_ctx_def [symmetric] del: rep_ctx_simps)
  then show ?thesis
    by (simp add: execute_graph_def pairs ex_h0_def [symmetric] ex_cfg_simps)
qed

lemma ex_process_dists_2:
  "\<exists>hp rs ma. process_dists ex_cfg ex_data ex_ctx (ex_h0, [[0]], []) [2] = Inr (hp, rs, ma)"
proof -
  from ex_evolve_total(2) [of "coeffs ex_ctx"] obtain h1 where
    "evolve ex_cfg (coeffs ex_ctx) ex_h0 2 = Inr (Some h1)" by blast
  from process_dist_total [OF this, of ex_data "[[0]]" "[]"] show ?thesis
    by (auto simp: ex_ctx_simps)
qed


subsection \<open>C10: the repetitions that are processed\<close>

lemma rep_ctx_reps_update [simp]: "rep_ctx (seq\<lparr>reps := x\<rparr>) data t0 rep c = rep_ctx seq data t0 rep c"
  by (simp add: rep_ctx_def grad_scale_def)

lemma run_rep_reps_update [simp]: "run_rep cfg (seq\<lparr>reps := x\<rparr>) data st p = run_rep cfg seq data st p"
  unfolding run_rep_def rep_ctx_reps_update by (rule refl)

lemma run_reps_reps_update [simp]:
  "run_reps cfg (seq\<lparr>reps := x\<rparr>) data st ps = run_reps cfg seq data st ps"
  by (induction ps arbitrary: st) (simp_all split: sum.splits)

lemma length_rep_pairs: "length (rep_pairs g seq) = min (length g - 1) (length (reps seq))"
  by (simp add: rep_pairs_def)

lemma rep_pairs_truncate:
  assumes "n = min (length g - 1) (length (reps seq))"
  shows "rep_pairs (take (Suc n) g) (seq\<lparr>reps := take n (reps seq)\<rparr>) = rep_pairs g seq"
proof -
  have "drop 1 (take (Suc n) g) = take n (drop 1 g)"
    by (cases g) simp_all
  then have "rep_pairs (take (Suc n) g) (seq\<lparr>reps := take n (reps seq)\<rparr>)
               = take n (zip (drop 1 g) (reps seq))"
    by (simp add: rep_pairs_def take_zip)
  also have "\<dots> = zip (drop 1 g) (reps seq)"
    using assms by simp
  finally show ?thesis by (simp add: rep_pairs_def)
qed



subsection \<open>C9: configuration errors\<close>

lemma process_dists_append:
  "process_dists cfg data ctx st (xs @ ys) =
     (case process_dists cfg data ctx st xs of
        Inl e \<Rightarrow> Inl e
      | Inr st' \<Rightarrow> process_dists cfg data ctx st' ys)"
  by (induction xs arbitrary: st) (simp_all split: sum.splits)

lemma run_reps_append:
  "run_reps cfg seq data st (ps @ qs) =
     (case run_reps cfg seq data st ps of
        Inl e \<Rightarrow> Inl e
      | Inr st' \<Rightarrow> run_reps cfg seq data st' qs)"
  by (induction ps arbitrary: st) (simp_all split: sum.splits)

text \<open>A failure in a distribution that the loop reaches is the failure of the loop.\<close>

lemma process_dists_abort:
  assumes "j < length ds"
    and "process_dists cfg data ctx st (take j ds) = Inr st'"
    and "process_dist cfg data ctx st' (ds ! j) = Inl e"
  shows "process_dists cfg data ctx st ds = Inl e"
proof -
  from assms(1) have "ds = take j ds @ ds ! j # drop (Suc j) ds"
    by (simp add: id_take_nth_drop)
  then have "process_dists cfg data ctx st ds
               = process_dists cfg data ctx st (take j ds @ ds ! j # drop (Suc j) ds)"
    by simp
  also have "\<dots> = Inl e"
    using assms(2,3) by (simp add: process_dists_append)
  finally show ?thesis .
qed

lemma run_reps_abort:
  assumes "i < length ps"
    and "run_reps cfg seq data st (take i ps) = Inr st'"
    and "run_rep cfg seq data st' (ps ! i) = Inl e"
  shows "run_reps cfg seq data st ps = Inl e"
proof -
  from assms(1) have "ps = take i ps @ ps ! i # drop (Suc i) ps"
    by (simp add: id_take_nth_drop)
  then have "run_reps cfg seq data st ps
               = run_reps cfg seq data st (take i ps @ ps ! i # drop (Suc i) ps)"
    by simp
  also have "\<dots> = Inl e"
    using assms(2,3) by (simp add: run_reps_append)
  finally show ?thesis .
qed

lemma calc_mag_unknown:
  "l \<notin> known_labels \<Longrightarrow> calc_mag c h (l, p) = Inl (ValueError (''Unknown transform '' @ l))"
  by (simp add: calc_mag_def known_labels_def)

lemma calc_mags_unknown:
  assumes "\<forall>a\<in>set ancs. mag (h (snd a)) \<noteq> None" and "\<exists>a\<in>set ancs. fst a \<notin> known_labels"
  shows "\<exists>l. l \<notin> known_labels \<and> calc_mags c h ancs = Inl (ValueError (''Unknown transform '' @ l))"
  using assms
proof (induction ancs)
  case Nil
  then show ?case by simp
next
  case (Cons a ancs)
  from Cons.prems(1) obtain m where m: "mag (h (snd a)) = Some m" by auto
  show ?case
  proof (cases "fst a \<in> known_labels")
    case False
    with m show ?thesis by (auto simp: calc_mag_simulated)
  next
    case True
    with Cons.prems have "\<exists>a\<in>set ancs. fst a \<notin> known_labels"
      and "\<forall>a\<in>set ancs. mag (h (snd a)) \<noteq> None" by auto
    from Cons.IH [OF this(2) this(1)] obtain l where
      "l \<notin> known_labels" "calc_mags c h ancs = Inl (ValueError (''Unknown transform '' @ l))"
      by blast
    with True m show ?thesis by (auto simp: calc_mag_simulated)
  qed
qed

lemma evolve_unknown:
  assumes "dist_type (h d) = ''z0'' \<or> \<not> latent_signal (h d) < min_latent_signal cfg"
    and "(l, p) \<in> set (simulated h (ancestors (h d)))" and "l \<notin> known_labels"
  shows "\<exists>l'. l' \<notin> known_labels \<and> evolve cfg c h d = Inl (ValueError (''Unknown transform '' @ l'))"
proof -
  let ?ancs = "simulated h (ancestors (h d))"
  have "\<forall>a\<in>set ?ancs. mag (h (snd a)) \<noteq> None" by (simp add: simulated_mag)
  moreover from assms(2,3) have "\<exists>a\<in>set ?ancs. fst a \<notin> known_labels" by force
  ultimately obtain l' where l': "l' \<notin> known_labels"
    "calc_mags c h ?ancs = Inl (ValueError (''Unknown transform '' @ l'))"
    using calc_mags_unknown by blast
  from assms(2) have "?ancs \<noteq> []" by auto
  with assms(1) l' show ?thesis
    by (auto simp: evolve_def Let_def)
qed




subsection \<open>C4: pruning\<close>

lemma carry_over_Inr:
  assumes "carry_over data ctx h d dtraj diffusion = Inr h2"
  shows "h2 = h(d := (h d)\<lparr>mag := mag (h2 d), kt_vec := kt_vec (h2 d)\<rparr>)" and "mag (h2 d) \<noteq> None"
proof -
  from assms obtain m where m: "mag (h d) = Some m"
    by (cases "mag (h d)") (simp_all add: carry_over_def)
  define r where "r = (if dist_type (h d) = ''+'' then
                    (let m' = (\<lambda>v. m v * of_real (r2 ctx v) * of_real (last diffusion v));
                         m'' = (case motion_phase ctx of
                                  None \<Rightarrow> m'
                                | Some mp \<Rightarrow>
                                    (\<lambda>v. m' v * exp (2 * \<i> * of_real pi * of_real (last mp v))))
                     in (m'', last dtraj))
                  else
                    (let k = vector_norm (first3 (kt_vec (h d)));
                         diffusion' = (\<lambda>v. exp (- 0.000000001 * D data v * total_time ctx * k\<^sup>2))
                     in ((\<lambda>v. m v * of_real (r1 ctx v) * of_real (diffusion' v)), kt_vec (h d))))"
  define m2 where "m2 = (if dist_type (h d) = ''z0'' then (\<lambda>v. fst r v + 1 - of_real (r1 ctx v))
                         else fst r)"
  from assms m have "h2 = h(d := (h d)\<lparr>mag := Some m2, kt_vec := snd r\<rparr>)"
    unfolding carry_over_def r_def m2_def by (simp add: case_prod_beta Let_def)
  then show "h2 = h(d := (h d)\<lparr>mag := mag (h2 d), kt_vec := kt_vec (h2 d)\<rparr>)"
    and "mag (h2 d) \<noteq> None"
    by simp_all
qed

text \<open>The loop body writes to the node it is run on, and to its \<open>mag\<close> and \<open>kt_vec\<close> only.\<close>

lemma process_dist_frame:
  assumes "process_dist cfg data ctx (h, rs, ma) d = Inr (h', rs', ma')"
  shows "a \<noteq> d \<Longrightarrow> h' a = h a"
    and "dist_type (h' a) = dist_type (h a)" and "latent_signal (h' a) = latent_signal (h a)"
    and "emitted_signal (h' a) = emitted_signal (h a)" and "ancestors (h' a) = ancestors (h a)"
    and "evolve cfg (coeffs ctx) h d \<noteq> Inr None \<Longrightarrow> mag (h' d) \<noteq> None"
proof -
  have "(evolve cfg (coeffs ctx) h d = Inr None \<and> h' = h)
      \<or> (\<exists>h1. evolve cfg (coeffs ctx) h d = Inr (Some h1)
            \<and> h' = h1(d := (h1 d)\<lparr>mag := mag (h' d), kt_vec := kt_vec (h' d)\<rparr>)
            \<and> mag (h' d) \<noteq> None)"
  proof (cases "evolve cfg (coeffs ctx) h d")
    case (Inl e)
    with assms show ?thesis by (simp add: process_dist_def)
  next
    case (Inr r)
    show ?thesis
    proof (cases r)
      case None
      with Inr assms show ?thesis by (simp add: process_dist_def)
    next
      case (Some h1)
      with Inr have ev: "evolve cfg (coeffs ctx) h d = Inr (Some h1)" by simp
      from process_dist_evaluated [OF ev assms]
      have "carry_over data ctx h1 d (dist_traj_of (kt_vec (h1 d)) (trajectory ctx))
         (diffusion_of data (b_factors (kt_vec (h1 d)) (dt ctx)
            (dist_traj_of (kt_vec (h1 d)) (trajectory ctx)))) = Inr h'"
        by simp
      from carry_over_Inr [OF this] ev show ?thesis by simp
    qed
  qed
  then consider (skip) "evolve cfg (coeffs ctx) h d = Inr None" "h' = h"
    | (eval) h1 where "evolve cfg (coeffs ctx) h d = Inr (Some h1)"
        "h' = h1(d := (h1 d)\<lparr>mag := mag (h' d), kt_vec := kt_vec (h' d)\<rparr>)"
        "mag (h' d) \<noteq> None"
    by blast
  note cases = this
  show "a \<noteq> d \<Longrightarrow> h' a = h a"
  proof (cases rule: cases)
    case skip
    then show ?thesis by simp
  next
    case (eval h1)
    assume "a \<noteq> d"
    with eval(2) have "h' a = h1 a" by (metis fun_upd_other)
    with evolve_static(6) [OF eval(1) \<open>a \<noteq> d\<close>] show ?thesis by simp
  qed
  have static: "dist_type (h' a) = dist_type (h a) \<and> latent_signal (h' a) = latent_signal (h a)
    \<and> emitted_signal (h' a) = emitted_signal (h a) \<and> ancestors (h' a) = ancestors (h a)"
  proof (cases rule: cases)
    case skip
    then show ?thesis by simp
  next
    case (eval h1)
    have "dist_type (h' a) = dist_type (h1 a) \<and> latent_signal (h' a) = latent_signal (h1 a)
      \<and> emitted_signal (h' a) = emitted_signal (h1 a) \<and> ancestors (h' a) = ancestors (h1 a)"
      by (subst (1 2 3 4) eval(2)) simp
    with evolve_static(1-4) [OF eval(1)] show ?thesis by simp
  qed
  then show "dist_type (h' a) = dist_type (h a)" and "latent_signal (h' a) = latent_signal (h a)"
    and "emitted_signal (h' a) = emitted_signal (h a)" and "ancestors (h' a) = ancestors (h a)"
    by simp_all
  show "evolve cfg (coeffs ctx) h d \<noteq> Inr None \<Longrightarrow> mag (h' d) \<noteq> None"
    by (cases rule: cases) simp_all
qed

lemma clear_ancestors_cell:
  "clear_ancestors h ancs a = h a \<or> clear_ancestors h ancs a = (h a)\<lparr>mag := None\<rparr>"
proof (induction ancs arbitrary: h)
  case Nil
  then show ?case by simp
next
  case (Cons x ancs)
  define h1 where "h1 = h(snd x := (h (snd x))\<lparr>mag := None\<rparr>)"
  have step: "h1 a = h a \<or> h1 a = (h a)\<lparr>mag := None\<rparr>"
    by (simp add: h1_def)
  have eq: "clear_ancestors h (x # ancs) a = clear_ancestors h1 ancs a"
    by (simp add: h1_def)
  from Cons.IH [of h1] step show ?case
    unfolding eq by auto
qed

lemma clear_mags_cell:
  "clear_mags h ds a = h a \<or> clear_mags h ds a = (h a)\<lparr>mag := None\<rparr>"
proof (induction ds arbitrary: h)
  case Nil
  then show ?case by simp
next
  case (Cons d ds)
  define h1 where "h1 = clear_ancestors h (ancestors (h d))"
  have step: "h1 a = h a \<or> h1 a = (h a)\<lparr>mag := None\<rparr>"
    unfolding h1_def by (rule clear_ancestors_cell)
  have eq: "clear_mags h (d # ds) a = clear_mags h1 ds a"
    by (simp add: h1_def)
  from Cons.IH [of h1] step show ?case
    unfolding eq by auto
qed

text \<open>A cell that is as it was, or was released.\<close>

lemma cell_static:
  assumes "x = y \<or> x = y\<lparr>mag := None\<rparr>"
  shows "dist_type x = dist_type y" and "latent_signal x = latent_signal y"
    and "ancestors x = ancestors y" and "mag y = None \<Longrightarrow> mag x = None"
  using assms by auto

lemma cell_cleared:
  assumes "x = y \<or> x = y\<lparr>mag := None\<rparr>" and "z = x \<or> z = x\<lparr>mag := None\<rparr>"
  shows "z = y \<or> z = y\<lparr>mag := None\<rparr>"
  using assms by auto

text \<open>
  The invariant of the pass for a set \<open>S\<close> of nodes that cannot be evaluated: each is not of
  the type z0, and has a latent signal below the threshold or only ancestors in \<open>S\<close> that
  had no magnetisation in the heap \<open>h0\<close> the repetitions started from.
\<close>

lemma process_dist_left_alone:
  assumes closed: "\<forall>a\<in>S. dist_type (h0 a) \<noteq> ''z0''
            \<and> (latent_signal (h0 a) < min_latent_signal cfg
                \<or> (\<forall>p\<in>snd ` set (ancestors (h0 a)). p \<in> S \<and> mag (h0 p) = None))"
    and inv: "\<forall>a\<in>S. h a = h0 a \<or> h a = (h0 a)\<lparr>mag := None\<rparr>"
    and step: "process_dist cfg data ctx (h, rs, ma) d = Inr (h', rs', ma')"
  shows "\<forall>a\<in>S. h' a = h0 a \<or> h' a = (h0 a)\<lparr>mag := None\<rparr>"
proof (cases "d \<in> S")
  case False
  show ?thesis
  proof
    fix a assume a: "a \<in> S"
    with False have "a \<noteq> d" by blast
    then have "h' a = h a" by (rule process_dist_frame(1) [OF step])
    with inv a show "h' a = h0 a \<or> h' a = (h0 a)\<lparr>mag := None\<rparr>" by simp
  qed
next
  case True
  with inv have cell: "h d = h0 d \<or> h d = (h0 d)\<lparr>mag := None\<rparr>" by blast
  note same = cell_static(1-3) [OF cell]
  note both = bspec [OF closed True]
  note nz = both [THEN conjunct1] and alt = both [THEN conjunct2]
  have "latent_signal (h d) < min_latent_signal cfg \<or> simulated h (ancestors (h d)) = []"
  proof (cases "latent_signal (h0 d) < min_latent_signal cfg")
    case True
    with same show ?thesis by simp
  next
    case False
    with alt have anc: "\<forall>p\<in>snd ` set (ancestors (h0 d)). p \<in> S \<and> mag (h0 p) = None" by simp
    have "mag (h (snd e)) = None" if "e \<in> set (ancestors (h d))" for e
    proof -
      from that same(3) have "snd e \<in> snd ` set (ancestors (h0 d))" by simp
      with anc have "snd e \<in> S" "mag (h0 (snd e)) = None" by blast+
      from inv this(1) have "h (snd e) = h0 (snd e) \<or> h (snd e) = (h0 (snd e))\<lparr>mag := None\<rparr>"
        by blast
      from cell_static(4) [OF this \<open>mag (h0 (snd e)) = None\<close>] show ?thesis .
    qed
    then have "simulated h (ancestors (h d)) = []"
      by (simp add: simulated_def filter_empty_conv)
    then show ?thesis by simp
  qed
  with nz same have "evolve cfg (coeffs ctx) h d = Inr None"
    by (simp add: evolve_None_iff)
  with step have "h' = h" by (simp add: process_dist_def)
  with inv show ?thesis by simp
qed

lemma process_dists_left_alone:
  assumes closed: "\<forall>a\<in>S. dist_type (h0 a) \<noteq> ''z0''
            \<and> (latent_signal (h0 a) < min_latent_signal cfg
                \<or> (\<forall>p\<in>snd ` set (ancestors (h0 a)). p \<in> S \<and> mag (h0 p) = None))"
    and inv: "\<forall>a\<in>S. h a = h0 a \<or> h a = (h0 a)\<lparr>mag := None\<rparr>"
    and steps: "process_dists cfg data ctx (h, rs, ma) ds = Inr (h', rs', ma')"
  shows "\<forall>a\<in>S. h' a = h0 a \<or> h' a = (h0 a)\<lparr>mag := None\<rparr>"
  using inv steps
proof (induction ds arbitrary: h rs ma)
  case Nil
  then show ?case by simp
next
  case (Cons d ds)
  from Cons.prems(2) obtain h1 rs1 ma1 where
    a: "process_dist cfg data ctx (h, rs, ma) d = Inr (h1, rs1, ma1)"
    and b: "process_dists cfg data ctx (h1, rs1, ma1) ds = Inr (h', rs', ma')"
    by (auto split: sum.splits)
  from process_dist_left_alone [OF closed Cons.prems(1) a]
  have "\<forall>a\<in>S. h1 a = h0 a \<or> h1 a = (h0 a)\<lparr>mag := None\<rparr>" .
  from Cons.IH [OF this b] show ?case .
qed

lemma run_rep_left_alone:
  assumes closed: "\<forall>a\<in>S. dist_type (h0 a) \<noteq> ''z0''
            \<and> (latent_signal (h0 a) < min_latent_signal cfg
                \<or> (\<forall>p\<in>snd ` set (ancestors (h0 a)). p \<in> S \<and> mag (h0 p) = None))"
    and inv: "\<forall>a\<in>S. h a = h0 a \<or> h a = (h0 a)\<lparr>mag := None\<rparr>"
    and step: "run_rep cfg seq data (h, t0, signal, mag_adc) p = Inr (h', t0', signal', mag_adc')"
  shows "\<forall>a\<in>S. h' a = h0 a \<or> h' a = (h0 a)\<lparr>mag := None\<rparr>"
proof -
  obtain dists rep where p: "p = (dists, rep)" by (cases p)
  from step p obtain c hp rs ma where
    pd: "process_dists cfg data (rep_ctx seq data t0 rep c)
           (h, replicate (adc_count rep) (replicate (length (coil_sens data)) 0), []) dists
         = Inr (hp, rs, ma)"
    and h': "h' = (if clear_state_mag cfg then clear_mags hp dists else hp)"
    by (auto simp: run_rep_def Let_def split: sum.splits)
  from process_dists_left_alone [OF closed inv pd]
  have hp: "\<forall>a\<in>S. hp a = h0 a \<or> hp a = (h0 a)\<lparr>mag := None\<rparr>" .
  show ?thesis
  proof
    fix a assume "a \<in> S"
    with hp have c1: "hp a = h0 a \<or> hp a = (h0 a)\<lparr>mag := None\<rparr>" by simp
    have c2: "h' a = hp a \<or> h' a = (hp a)\<lparr>mag := None\<rparr>"
    proof (cases "clear_state_mag cfg")
      case True
      with h' show ?thesis using clear_mags_cell [of hp dists a] by simp
    next
      case False
      with h' show ?thesis by simp
    qed
    from cell_cleared [OF c1 c2] show "h' a = h0 a \<or> h' a = (h0 a)\<lparr>mag := None\<rparr>" .
  qed
qed

lemma run_reps_left_alone:
  assumes closed: "\<forall>a\<in>S. dist_type (h0 a) \<noteq> ''z0''
            \<and> (latent_signal (h0 a) < min_latent_signal cfg
                \<or> (\<forall>p\<in>snd ` set (ancestors (h0 a)). p \<in> S \<and> mag (h0 p) = None))"
    and inv: "\<forall>a\<in>S. h a = h0 a \<or> h a = (h0 a)\<lparr>mag := None\<rparr>"
    and steps: "run_reps cfg seq data (h, t0, signal, mag_adc) ps = Inr (h', t0', signal', mag_adc')"
  shows "\<forall>a\<in>S. h' a = h0 a \<or> h' a = (h0 a)\<lparr>mag := None\<rparr>"
  using inv steps
proof (induction ps arbitrary: h t0 signal mag_adc)
  case Nil
  then show ?case by simp
next
  case (Cons p ps)
  from Cons.prems(2) obtain h1 t1 s1 m1 where
    a: "run_rep cfg seq data (h, t0, signal, mag_adc) p = Inr (h1, t1, s1, m1)"
    and b: "run_reps cfg seq data (h1, t1, s1, m1) ps = Inr (h', t0', signal', mag_adc')"
    by (auto split: sum.splits)
  from run_rep_left_alone [OF closed Cons.prems(1) a]
  have "\<forall>a\<in>S. h1 a = h0 a \<or> h1 a = (h0 a)\<lparr>mag := None\<rparr>" .
  from Cons.IH [OF this b] show ?case .
qed

text \<open>
  C4, amended: let \<open>S\<close> be a set of nodes, none of the type z0 and none the seeded node
  \<open>graph[0][0]\<close> with a magnetisation, each of which has a latent signal strictly below
  the threshold, or has only ancestors that are in \<open>S\<close> and have no magnetisation when the
  pass starts. Then a pass that returns has computed nothing for the nodes of \<open>S\<close>: each
  has the \<open>kt_vec\<close> and the magnetisation it had after the seeding, or that magnetisation
  was released. So a node below the threshold that is not of the type z0 is never
  evaluated, and neither is a node, not of the type z0, whose ancestors are all such
  nodes without magnetisation.
\<close>

theorem pruned_nodes_never_computed:
  assumes run: "execute_graph cfg g seq data h = Inr (res, h')"
    and g: "g = (a0 # r0) # gs"
    and closed: "\<forall>a\<in>S. dist_type (h a) \<noteq> ''z0''
            \<and> (latent_signal (h a) < min_latent_signal cfg
                \<or> (\<forall>p\<in>snd ` set (ancestors (h a)). p \<in> S \<and> p \<noteq> a0 \<and> mag (h p) = None))"
  shows "\<forall>a\<in>S. h' a = seed cfg h a0 a \<or> h' a = (seed cfg h a0 a)\<lparr>mag := None\<rparr>"
proof -
  let ?h0 = "seed cfg h a0"
  from execute_graph_Inr [OF run] obtain a1 l1 g1 t0 signal mag_adc where
    g1: "g = (a1 # l1) # g1"
    and reps1: "run_reps cfg seq data (seed cfg h a1, 0, [], []) (rep_pairs g seq)
                  = Inr (h', t0, signal, mag_adc)"
    by blast
  from g g1 have "a1 = a0" by simp
  with reps1 have
    reps: "run_reps cfg seq data (?h0, 0, [], []) (rep_pairs g seq) = Inr (h', t0, signal, mag_adc)"
    by simp
  have static: "dist_type (?h0 a) = dist_type (h a)" "latent_signal (?h0 a) = latent_signal (h a)"
    "ancestors (?h0 a) = ancestors (h a)" for a
    by (simp_all add: seed_def)
  have none: "mag (?h0 p) = None" if "p \<noteq> a0" "mag (h p) = None" for p
    using that by (simp add: seed_def)
  have closed0: "\<forall>a\<in>S. dist_type (?h0 a) \<noteq> ''z0''
            \<and> (latent_signal (?h0 a) < min_latent_signal cfg
                \<or> (\<forall>p\<in>snd ` set (ancestors (?h0 a)). p \<in> S \<and> mag (?h0 p) = None))"
  proof
    fix a assume "a \<in> S"
    with closed have ty: "dist_type (h a) \<noteq> ''z0''"
      and alt: "latent_signal (h a) < min_latent_signal cfg
                \<or> (\<forall>p\<in>snd ` set (ancestors (h a)). p \<in> S \<and> p \<noteq> a0 \<and> mag (h p) = None)"
      by simp_all
    have weaker: "\<forall>p\<in>snd ` set (ancestors (h a)). p \<in> S \<and> mag (?h0 p) = None"
      if all: "\<forall>p\<in>snd ` set (ancestors (h a)). p \<in> S \<and> p \<noteq> a0 \<and> mag (h p) = None"
    proof
      fix p assume "p \<in> snd ` set (ancestors (h a))"
      from bspec [OF all this] have "p \<in> S" "p \<noteq> a0" "mag (h p) = None" by simp_all
      from this(1) none [OF this(2) this(3)] show "p \<in> S \<and> mag (?h0 p) = None" by simp
    qed
    have "latent_signal (h a) < min_latent_signal cfg
                \<or> (\<forall>p\<in>snd ` set (ancestors (h a)). p \<in> S \<and> mag (?h0 p) = None)"
    proof (cases "latent_signal (h a) < min_latent_signal cfg")
      case True
      then show ?thesis by (rule disjI1)
    next
      case False
      with alt have "\<forall>p\<in>snd ` set (ancestors (h a)). p \<in> S \<and> p \<noteq> a0 \<and> mag (h p) = None"
        by simp
      then show ?thesis by (rule weaker [THEN disjI2])
    qed
    with ty show "dist_type (?h0 a) \<noteq> ''z0''
            \<and> (latent_signal (?h0 a) < min_latent_signal cfg
                \<or> (\<forall>p\<in>snd ` set (ancestors (?h0 a)). p \<in> S \<and> mag (?h0 p) = None))"
      unfolding static by simp
  qed
  have inv: "\<forall>a\<in>S. ?h0 a = ?h0 a \<or> ?h0 a = (?h0 a)\<lparr>mag := None\<rparr>" by simp
  from run_reps_left_alone [OF closed0 inv reps] show ?thesis .
qed


text \<open>
  C4, as stated, fails for a node of the type z0: the source exempts that type from both
  tests. Object 1 of the example heap has the type z0, a latent signal of 0 below the
  threshold 0.01 and no magnetisation; the pass on the graph of the relaxed state and
  object 1 returns, and has computed a magnetisation for object 1.
\<close>

theorem equilibrium_below_threshold_counterexample:
  "dist_type (ex_heap 1) = ''z0'' \<and> latent_signal (ex_heap 1) < min_latent_signal ex_cfg
   \<and> mag (ex_heap 1) = None
   \<and> (\<exists>res h'. execute_graph ex_cfg [[0], [1]] ex_seq ex_data ex_heap = Inr (res, h')
          \<and> mag (h' 1) \<noteq> None)"
proof -
  have init: "dist_type (ex_heap 1) = ''z0''" "latent_signal (ex_heap 1) < min_latent_signal ex_cfg"
    "mag (ex_heap 1) = None"
    by (simp_all add: ex_heap_def ex_node_simps ex_cfg_simps del: One_nat_def)
  from ex_evolve_total(1) [of "coeffs ex_ctx"] obtain h1 where
    ev: "evolve ex_cfg (coeffs ex_ctx) ex_h0 1 = Inr (Some h1)" by blast
  from process_dist_total [OF ev, of ex_data "[[0]]" "[]"] obtain h2 rs ma where
    pd: "process_dist ex_cfg ex_data ex_ctx (ex_h0, [[0]], []) 1 = Inr (h2, rs, ma)"
    by (auto simp: ex_ctx_simps)
  then have "process_dists ex_cfg ex_data ex_ctx (ex_h0, [[0]], []) [1] = Inr (h2, rs, ma)"
    by simp
  from ex_execute_graph [OF this] obtain res where
    run: "execute_graph ex_cfg [[0], [1]] ex_seq ex_data ex_heap = Inr (res, clear_mags h2 [1])"
    by blast
  from ev have "evolve ex_cfg (coeffs ex_ctx) ex_h0 1 \<noteq> Inr None" by simp
  from process_dist_frame(6) [OF pd this] have m: "mag (h2 1) \<noteq> None" .
  have "ancestors (h2 1) = [(''zz'', 0)]"
    using process_dist_frame(5) [OF pd, of 1] by (simp add: ex_simps del: One_nat_def)
  with m have "mag (clear_mags h2 [1] 1) \<noteq> None" by simp
  with run init show ?thesis by blast
qed

lemma ex_process_dists_skipped:
  "process_dists ex_cfg ex_data ex_ctx (ex_h0, [[0]], []) [3, 6] = Inr (ex_h0, [[0]], [])"
proof -
  have "evolve ex_cfg (coeffs ex_ctx) ex_h0 3 = Inr None"
    "evolve ex_cfg (coeffs ex_ctx) ex_h0 6 = Inr None"
    by (simp_all add: evolve_None_iff ex_simps simulated_def)
  then show ?thesis by (simp add: process_dist_def)
qed

theorem pruned_nodes_never_computed_witness:
  "\<exists>res h'. execute_graph ex_cfg [[0], [3, 6]] ex_seq ex_data ex_heap = Inr (res, h')
     \<and> mag (h' 3) = None \<and> mag (h' 6) = None"
proof -
  from ex_execute_graph [OF ex_process_dists_skipped] obtain res h' where
    run: "execute_graph ex_cfg [[0], [3, 6]] ex_seq ex_data ex_heap = Inr (res, h')"
    by blast
  have g: "[[0], [3, 6]] = (0 # []) # [[3, 6::nat]]" by simp
  have closed: "\<forall>a\<in>{3, 6}. dist_type (ex_heap a) \<noteq> ''z0''
            \<and> (latent_signal (ex_heap a) < min_latent_signal ex_cfg
                \<or> (\<forall>p\<in>snd ` set (ancestors (ex_heap a)).
                      p \<in> {3, 6} \<and> p \<noteq> 0 \<and> mag (ex_heap p) = None))"
    by (simp add: ex_heap_def ex_node_simps ex_cfg_simps)
  note left = pruned_nodes_never_computed [OF run g closed]
  from bspec [OF left, of 3] bspec [OF left, of 6]
  have "mag (h' 3) = None" "mag (h' 6) = None"
    by (auto simp: ex_h0_def [symmetric] ex_simps)
  with run show ?thesis by blast
qed

end
